theory Spec2Isabelle
  imports Main "HOL-Library.Char_ord" "HOL-Library.List_Lexorder" "HOL-Library.Multiset"
begin

section \<open>The command-line interface of daphne (daphne/cli.py)\<close>

text \<open>
  The development embeds \<^verbatim>\<open>CommandLineInterface.run\<close> and its two helper methods.
  The argument parser itself is the standard library's; the model starts from the
  \<^verbatim>\<open>Namespace\<close> that \<^verbatim>\<open>parse_args\<close> returns. Everything \<^verbatim>\<open>run\<close> does to the
  outside (logging set-up, opening a file, changing directory, importing modules, calling a
  hook, building endpoint strings, starting the server) is recorded as an event of a trace,
  in the order in which the source performs it; every exception is a value.
\<close>

subsection \<open>Constants\<close>

definition DEFAULT_HOST :: string where
  "DEFAULT_HOST = ''127.0.0.1''"

definition DEFAULT_PORT :: int where
  "DEFAULT_PORT = 8000"

subsection \<open>The parsed arguments\<close>

text \<open>
  One field per \<^verbatim>\<open>add_argument\<close> of \<^verbatim>\<open>__init__\<close>, named by its \<^verbatim>\<open>dest\<close>.
  An option whose default is \<^verbatim>\<open>None\<close> is an \<open>option\<close>. The two options
  \<^verbatim>\<open>--proxy-headers-host\<close> and \<^verbatim>\<open>--proxy-headers-port\<close> have the default \<^verbatim>\<open>False\<close>
  and otherwise hold a string; the source only ever tests them for truth and returns the
  string, so the default \<^verbatim>\<open>False\<close> is \<open>None\<close> here. The options
  \<^verbatim>\<open>--callback-module\<close> and \<^verbatim>\<open>--chdir\<close> give no default, which argparse reads as
  \<^verbatim>\<open>None\<close>.
\<close>

record namespace =
  port :: "int option"
  host :: "string option"
  websocket_timeout :: int
  websocket_connect_timeout :: int
  unix_socket :: "string option"
  file_descriptor :: "int option"
  socket_strings :: "string list"
  verbosity :: int
  http_timeout :: "int option"
  access_log :: "string option"
  log_fmt :: string
  ping_interval :: int
  ping_timeout :: int
  application_close_timeout :: int
  root_path :: string
  proxy_headers :: bool
  proxy_headers_host :: "string option"
  proxy_headers_port :: "string option"
  application :: string
  server_name :: string
  callback_module :: "string option"
  chdir :: "string option"

text \<open>The namespace of a command line that gives the positional argument only.\<close>

definition default_args :: "string \<Rightarrow> namespace" where
  "default_args app =
     \<lparr> port = None, host = None, websocket_timeout = 86400,
       websocket_connect_timeout = 5, unix_socket = None, file_descriptor = None,
       socket_strings = [], verbosity = 1, http_timeout = None, access_log = None,
       log_fmt = ''%(asctime)-15s %(levelname)-8s %(message)s'',
       ping_interval = 20, ping_timeout = 30, application_close_timeout = 10,
       root_path = [], proxy_headers = False, proxy_headers_host = None,
       proxy_headers_port = None, application = app, server_name = ''daphne'',
       callback_module = None, chdir = None \<rparr>"

text \<open>
  Python's truth test on a value that is \<^verbatim>\<open>None\<close>, \<^verbatim>\<open>False\<close> or a string:
  only a non-empty string is true.
\<close>

definition truthy :: "string option \<Rightarrow> bool" where
  "truthy s = (case s of None \<Rightarrow> False | Some v \<Rightarrow> v \<noteq> [])"

subsection \<open>Exceptions\<close>

text \<open>
  \<open>KeyError\<close> is the failed dictionary lookup of the verbosity, \<open>ArgumentError\<close> carries
  the option the error is about and its message, and \<open>Propagated\<close> is any exception that
  a collaborator or the operating system raises and \<^verbatim>\<open>run\<close> lets through.
\<close>

type_synonym exn = string

datatype error =
    KeyError int
  | ArgumentError string string
  | Propagated exn

subsection \<open>The proxy headers\<close>

definition check_proxy_headers_passed :: "string \<Rightarrow> namespace \<Rightarrow> error + unit" where
  "check_proxy_headers_passed argument args =
     (if proxy_headers args then Inr ()
      else Inl (ArgumentError argument
                  ''--proxy-headers has to be passed for this parameter.''))"

definition arg_proxy_host :: string where
  "arg_proxy_host = ''--proxy-headers-host''"

definition arg_proxy_port :: string where
  "arg_proxy_port = ''--proxy-headers-port''"

definition get_forwarded_host :: "namespace \<Rightarrow> error + string option" where
  "get_forwarded_host args =
     (if truthy (proxy_headers_host args) then
        (case check_proxy_headers_passed arg_proxy_host args of
           Inl e \<Rightarrow> Inl e
         | Inr _ \<Rightarrow> Inr (proxy_headers_host args))
      else if proxy_headers args then Inr (Some ''X-Forwarded-For'')
      else Inr None)"

definition get_forwarded_port :: "namespace \<Rightarrow> error + string option" where
  "get_forwarded_port args =
     (if truthy (proxy_headers_port args) then
        (case check_proxy_headers_passed arg_proxy_port args of
           Inl e \<Rightarrow> Inl e
         | Inr _ \<Rightarrow> Inr (proxy_headers_port args))
      else if proxy_headers args then Inr (Some ''X-Forwarded-Port'')
      else Inr None)"

text \<open>The third header name is computed in place in the call of the server class.\<close>

definition forwarded_proto :: "namespace \<Rightarrow> string option" where
  "forwarded_proto args = (if proxy_headers args then Some ''X-Forwarded-Proto'' else None)"

subsection \<open>Values, collaborators and events\<close>

datatype loglevel = WARN | INFO | DEBUG

text \<open>
  The access-log stream is \<^verbatim>\<open>sys.stdout\<close> or the file object that
  \<^verbatim>\<open>open(path, "a", 1)\<close> returned.
\<close>

datatype stream = Stdout | File string

text \<open>
  A Python object that \<^verbatim>\<open>run\<close> obtains from a module: a function, which is true and
  can be called, or any other value, of which only its truth value matters and whose call
  raises \<^verbatim>\<open>TypeError\<close>. A module is the map of its attributes.
\<close>

datatype pyobj = PyFunction string | PyValue string bool

type_synonym pymodule = "string \<rightharpoonup> pyobj"

definition py_bool :: "pyobj option \<Rightarrow> bool" where
  "py_bool v = (case v of None \<Rightarrow> False | Some (PyFunction f) \<Rightarrow> True | Some (PyValue x b) \<Rightarrow> b)"

text \<open>\<^verbatim>\<open>getattr(callback_module, name, None)\<close>, where the module may be \<^verbatim>\<open>None\<close>.\<close>

definition getattr :: "pymodule option \<Rightarrow> string \<Rightarrow> pyobj option" where
  "getattr m name = (case m of None \<Rightarrow> None | Some attrs \<Rightarrow> attrs name)"

text \<open>The keyword arguments with which \<^verbatim>\<open>run\<close> calls \<^verbatim>\<open>self.server_class\<close>.\<close>

record server_kwargs =
  kw_application :: pyobj
  kw_endpoints :: "string list"
  kw_http_timeout :: "int option"
  kw_ping_interval :: int
  kw_ping_timeout :: int
  kw_websocket_timeout :: int
  kw_websocket_connect_timeout :: int
  kw_websocket_handshake_timeout :: int
  kw_application_close_timeout :: int
  kw_action_logger :: "stream option"
  kw_root_path :: string
  kw_verbosity :: int
  kw_proxy_forwarded_address_header :: "string option"
  kw_proxy_forwarded_port_header :: "string option"
  kw_proxy_forwarded_proto_header :: "string option"
  kw_server_name :: string
  kw_ready_callable :: "pyobj option"

text \<open>
  What the outside answers to each call that \<^verbatim>\<open>run\<close> makes. A result \<open>Some e\<close> or
  \<open>Inl e\<close> is the exception \<open>e\<close> raised by the call. \<^verbatim>\<open>run\<close> makes each of these
  calls at most once, so a state that a call changes for a later one is covered by the
  choice of the answers. The function \<^verbatim>\<open>build_endpoint_description_strings\<close> is defined
  in daphne/endpoints.py and is a collaborator like the others here.
\<close>

record world =
  os_open :: "string \<Rightarrow> exn option"
  os_chdir :: "string \<Rightarrow> exn option"
  os_getcwd :: "exn + string"
  import_module :: "string \<Rightarrow> exn + pymodule"
  call_function :: "string \<Rightarrow> exn option"
  import_by_path :: "string \<Rightarrow> exn + pyobj"
  guarantee_single_callable :: "pyobj \<Rightarrow> exn + pyobj"
  build_endpoint_description_strings ::
    "string option \<Rightarrow> int option \<Rightarrow> string option \<Rightarrow> int option \<Rightarrow> exn + string list"

datatype event =
    BasicConfig loglevel string
  | Open string string int
  | Print string
  | Chdir string
  | Getcwd
  | ImportModule string
  | Call pyobj "pyobj list"
  | SysPathInsert int string
  | ImportByPath string
  | GuaranteeSingleCallable pyobj
  | BuildEndpointDescriptionStrings "string option" "int option" "string option" "int option"
  | LoggerInfo string
  | ServerInit server_kwargs
  | ServerRun

text \<open>
  A computation yields the events it performed and either the exception that ended it
  or its value.
\<close>

type_synonym 'a io = "event list \<times> (error + 'a)"

definition return_io :: "'a \<Rightarrow> 'a io" where
  "return_io x = ([], Inr x)"

definition raise_io :: "error \<Rightarrow> 'a io" where
  "raise_io e = ([], Inl e)"

definition emit :: "event \<Rightarrow> unit io" where
  "emit ev = ([ev], Inr ())"

text \<open>A call to the outside: the event, then the answer.\<close>

definition perform :: "event \<Rightarrow> exn + 'a \<Rightarrow> 'a io" where
  "perform ev r = ([ev], (case r of Inl e \<Rightarrow> Inl (Propagated e) | Inr v \<Rightarrow> Inr v))"

definition lift_result :: "error + 'a \<Rightarrow> 'a io" where
  "lift_result r = ([], r)"

definition bind_io :: "'a io \<Rightarrow> ('a \<Rightarrow> 'b io) \<Rightarrow> 'b io" where
  "bind_io m f =
     (case snd m of
        Inl e \<Rightarrow> (fst m, Inl e)
      | Inr x \<Rightarrow> (fst m @ fst (f x), snd (f x)))"

definition unit_result :: "exn option \<Rightarrow> exn + unit" where
  "unit_result r = (case r of None \<Rightarrow> Inr () | Some e \<Rightarrow> Inl e)"

definition value_of :: "string option \<Rightarrow> string" where
  "value_of s = (case s of None \<Rightarrow> [] | Some v \<Rightarrow> v)"

subsection \<open>The steps of \<^verbatim>\<open>run\<close>\<close>

text \<open>
  Lines 224 to 232: the level is looked up in a dictionary literal with the keys 0 to 3;
  a missing key raises \<^verbatim>\<open>KeyError\<close> before \<^verbatim>\<open>logging.basicConfig\<close> is called.
\<close>

definition verbosity_levels :: "int \<rightharpoonup> loglevel" where
  "verbosity_levels = [0 \<mapsto> WARN, 1 \<mapsto> INFO, 2 \<mapsto> DEBUG, 3 \<mapsto> DEBUG]"

definition configure_logging :: "namespace \<Rightarrow> unit io" where
  "configure_logging args =
     (case verbosity_levels (verbosity args) of
        None \<Rightarrow> raise_io (KeyError (verbosity args))
      | Some level \<Rightarrow> emit (BasicConfig level (log_fmt args)))"

text \<open>Lines 234 to 241.\<close>

definition open_access_log :: "world \<Rightarrow> namespace \<Rightarrow> stream option io" where
  "open_access_log w args =
     (if truthy (access_log args) then
        (if access_log args = Some ''-'' then return_io (Some Stdout)
         else
           perform (Open (value_of (access_log args)) ''a'' 1)
             (case os_open w (value_of (access_log args)) of
                Some e \<Rightarrow> Inl e
              | None \<Rightarrow> Inr (Some (File (value_of (access_log args))))))
      else if verbosity args \<ge> 1 then return_io (Some Stdout)
      else return_io None)"

text \<open>Lines 245 to 248.\<close>

definition change_directory :: "world \<Rightarrow> namespace \<Rightarrow> unit io" where
  "change_directory w args =
     bind_io
       (if truthy (chdir args) then
          bind_io (emit (Print (''Changing directory to '' @ value_of (chdir args))))
            (\<lambda>_. perform (Chdir (value_of (chdir args)))
                    (unit_result (os_chdir w (value_of (chdir args)))))
        else return_io ())
       (\<lambda>_. bind_io (perform Getcwd (os_getcwd w))
               (\<lambda>cwd. emit (Print (''Current working directory: '' @ cwd))))"

text \<open>Lines 251 to 257.\<close>

definition load_callback_module :: "world \<Rightarrow> namespace \<Rightarrow> pymodule option io" where
  "load_callback_module w args =
     (case callback_module args of
        Some name \<Rightarrow>
          bind_io (emit (Print (''Looking for module: '' @ name)))
            (\<lambda>_. bind_io (perform (ImportModule name) (import_module w name))
                    (\<lambda>m. return_io (Some m)))
      | None \<Rightarrow> bind_io (emit (Print ''Not looking for module'')) (\<lambda>_. return_io None))"

text \<open>A call \<^verbatim>\<open>f()\<close> of an object, with no arguments.\<close>

definition call0 :: "world \<Rightarrow> pyobj \<Rightarrow> unit io" where
  "call0 w f =
     perform (Call f [])
       (case f of
          PyFunction name \<Rightarrow> unit_result (call_function w name)
        | PyValue x b \<Rightarrow> Inl ''TypeError'')"

text \<open>Lines 263 to 265.\<close>

definition run_when_init :: "world \<Rightarrow> pymodule option \<Rightarrow> unit io" where
  "run_when_init w cb =
     (case getattr cb ''when_init'' of
        None \<Rightarrow> return_io ()
      | Some init_callable \<Rightarrow>
          if py_bool (Some init_callable) then call0 w init_callable else return_io ())"

text \<open>Lines 268 to 270.\<close>

definition load_application :: "world \<Rightarrow> namespace \<Rightarrow> pyobj io" where
  "load_application w args =
     bind_io (emit (SysPathInsert 0 ''.''))
       (\<lambda>_. bind_io (perform (ImportByPath (application args)) (import_by_path w (application args)))
               (\<lambda>app. perform (GuaranteeSingleCallable app) (guarantee_single_callable w app)))"

text \<open>Lines 273 to 288: the test of \<^verbatim>\<open>any\<close> and the assignments to \<^verbatim>\<open>args\<close>.\<close>

definition any_binding :: "namespace \<Rightarrow> bool" where
  "any_binding args =
     (truthy (host args) \<or> port args \<noteq> None \<or> truthy (unix_socket args) \<or>
      file_descriptor args \<noteq> None \<or> socket_strings args \<noteq> [])"

definition set_up_bindings :: "namespace \<Rightarrow> namespace" where
  "set_up_bindings args =
     (if \<not> any_binding args then
        args\<lparr>host := Some DEFAULT_HOST, port := Some DEFAULT_PORT\<rparr>
      else if truthy (host args) \<and> port args = None then
        args\<lparr>port := Some DEFAULT_PORT\<rparr>
      else if port args \<noteq> None \<and> \<not> truthy (host args) then
        args\<lparr>host := Some DEFAULT_HOST\<rparr>
      else args)"

text \<open>
  Lines 290 to 296, on the arguments as \<open>set_up_bindings\<close> left them. \<^verbatim>\<open>sorted\<close>
  compares strings code point by code point, a proper prefix coming first; here a string
  is the list of its bytes in UTF-8, whose lexicographic order is the same.
\<close>

definition resolve_endpoints :: "world \<Rightarrow> namespace \<Rightarrow> string list io" where
  "resolve_endpoints w args =
     bind_io
       (perform
          (BuildEndpointDescriptionStrings (host args) (port args) (unix_socket args)
             (file_descriptor args))
          (build_endpoint_description_strings w (host args) (port args) (unix_socket args)
             (file_descriptor args)))
       (\<lambda>endpoints. return_io (sort (socket_strings args @ endpoints)))"

text \<open>\<^verbatim>\<open>", ".join(endpoints)\<close>\<close>

fun join :: "string \<Rightarrow> string list \<Rightarrow> string" where
  "join sep [] = []"
| "join sep [x] = x"
| "join sep (x # y # ys) = x @ sep @ join sep (y # ys)"

text \<open>
  Lines 303 to 325: the keyword arguments are evaluated in the order in which they are
  written, so the first of the two header checks that fails ends the call.
\<close>

definition server_arguments ::
  "namespace \<Rightarrow> pyobj \<Rightarrow> string list \<Rightarrow> stream option \<Rightarrow> pyobj option \<Rightarrow> error + server_kwargs" where
  "server_arguments args app endpoints access_log_stream ready_callable =
     (case get_forwarded_host args of
        Inl e \<Rightarrow> Inl e
      | Inr address_header \<Rightarrow>
          (case get_forwarded_port args of
             Inl e \<Rightarrow> Inl e
           | Inr port_header \<Rightarrow>
               Inr \<lparr> kw_application = app,
                     kw_endpoints = endpoints,
                     kw_http_timeout = http_timeout args,
                     kw_ping_interval = ping_interval args,
                     kw_ping_timeout = ping_timeout args,
                     kw_websocket_timeout = websocket_timeout args,
                     kw_websocket_connect_timeout = websocket_connect_timeout args,
                     kw_websocket_handshake_timeout = websocket_connect_timeout args,
                     kw_application_close_timeout = application_close_timeout args,
                     kw_action_logger = access_log_stream,
                     kw_root_path = root_path args,
                     kw_verbosity = verbosity args,
                     kw_proxy_forwarded_address_header = address_header,
                     kw_proxy_forwarded_port_header = port_header,
                     kw_proxy_forwarded_proto_header = forwarded_proto args,
                     kw_server_name = server_name args,
                     kw_ready_callable = ready_callable \<rparr>))"

text \<open>
  Lines 298 to 326, from the log line to the start of the server. The model ends where
  \<^verbatim>\<open>run\<close> hands over: what the server class does with its arguments is not part of it.
\<close>

definition start_server ::
  "namespace \<Rightarrow> pymodule option \<Rightarrow> pyobj \<Rightarrow> string list \<Rightarrow> stream option \<Rightarrow> server_kwargs io" where
  "start_server args cb app endpoints access_log_stream =
     bind_io (emit (LoggerInfo (''Starting server at '' @ join '', '' endpoints)))
       (\<lambda>_. bind_io
               (lift_result
                  (server_arguments args app endpoints access_log_stream
                     (getattr cb ''when_ready'')))
               (\<lambda>kw. bind_io (emit (ServerInit kw))
                        (\<lambda>_. bind_io (emit ServerRun) (\<lambda>_. return_io kw))))"

subsection \<open>\<^verbatim>\<open>CommandLineInterface.run\<close>\<close>

definition run :: "world \<Rightarrow> namespace \<Rightarrow> server_kwargs io" where
  "run w args =
     bind_io (configure_logging args) (\<lambda>_.
     bind_io (open_access_log w args) (\<lambda>access_log_stream.
     bind_io (change_directory w args) (\<lambda>_.
     bind_io (load_callback_module w args) (\<lambda>cb.
     bind_io (run_when_init w cb) (\<lambda>_.
     bind_io (load_application w args) (\<lambda>app.
     bind_io (resolve_endpoints w (set_up_bindings args)) (\<lambda>endpoints.
     start_server (set_up_bindings args) cb app endpoints access_log_stream)))))))"

text \<open>
  The part of \<^verbatim>\<open>run\<close> before line 298, with the values that the rest of it uses:
  the access-log stream, the callback module, the application and the endpoints.
\<close>

definition prepare ::
  "world \<Rightarrow> namespace \<Rightarrow> (stream option \<times> pymodule option \<times> pyobj \<times> string list) io" where
  "prepare w args =
     bind_io (configure_logging args) (\<lambda>_.
     bind_io (open_access_log w args) (\<lambda>access_log_stream.
     bind_io (change_directory w args) (\<lambda>_.
     bind_io (load_callback_module w args) (\<lambda>cb.
     bind_io (run_when_init w cb) (\<lambda>_.
     bind_io (load_application w args) (\<lambda>app.
     bind_io (resolve_endpoints w (set_up_bindings args)) (\<lambda>endpoints.
     return_io (access_log_stream, cb, app, endpoints))))))))"

subsection \<open>The log configurations of the specification\<close>




subsection \<open>The endpoint builder of the specification\<close>

text \<open>
  Modelled from the spec: the function \<^verbatim>\<open>build_endpoint_description_strings\<close> of
  daphne/endpoints.py, which \<^verbatim>\<open>run\<close> calls, is not among the sources. The
  specification (section 4.3, step 3, and \<^verbatim>\<open>BuildEndpointStrings\<close> in section 6) says that
  it is a pure function that builds the descriptor strings for whichever of host with port,
  unix_socket and file_descriptor are populated. It does not give the encoding of a
  descriptor, so the three encodings are parameters. A string counts as populated when it
  is not empty and a number when it is given, which is how \<^verbatim>\<open>run\<close> reads the same
  arguments.
\<close>

record descriptor_format =
  tcp_descriptor :: "string \<Rightarrow> int \<Rightarrow> string"
  unix_descriptor :: "string \<Rightarrow> string"
  fd_descriptor :: "int \<Rightarrow> string"

definition BuildEndpointStrings ::
  "descriptor_format \<Rightarrow> string option \<Rightarrow> int option \<Rightarrow> string option \<Rightarrow> int option \<Rightarrow> string list" where
  "BuildEndpointStrings fmt h p u f =
     (case p of
        Some n \<Rightarrow> if truthy h then [tcp_descriptor fmt (value_of h) n] else []
      | None \<Rightarrow> []) @
     (if truthy u then [unix_descriptor fmt (value_of u)] else []) @
     (case f of Some n \<Rightarrow> [fd_descriptor fmt n] | None \<Rightarrow> [])"

text \<open>A world whose endpoint builder is the one of the specification.\<close>

definition with_builder :: "descriptor_format \<Rightarrow> world \<Rightarrow> world" where
  "with_builder fmt w =
     w\<lparr>build_endpoint_description_strings :=
         (\<lambda>h p u f. Inr (BuildEndpointStrings fmt h p u f))\<rparr>"

subsection \<open>A concrete world\<close>

text \<open>
  The examples below run in a world in which every call succeeds, the modules that can
  be imported as a callback module are \<^verbatim>\<open>hooks\<close>, with both hooks, and
  \<^verbatim>\<open>ready_only\<close>, with \<^verbatim>\<open>when_ready\<close> alone, and descriptors are written
  \<^verbatim>\<open>tcp:host:port\<close>, \<^verbatim>\<open>unix:path\<close> and \<^verbatim>\<open>fd:number\<close>.
\<close>

fun decimal :: "nat \<Rightarrow> string" where
  "decimal n =
     (if n < 10 then [''0123456789'' ! n]
      else decimal (n div 10) @ [''0123456789'' ! (n mod 10)])"

definition str_of_int :: "int \<Rightarrow> string" where
  "str_of_int i = (if i < 0 then ''-'' @ decimal (nat (- i)) else decimal (nat i))"

definition example_format :: descriptor_format where
  "example_format =
     \<lparr> tcp_descriptor = (\<lambda>h p. ''tcp:'' @ h @ '':'' @ str_of_int p),
       unix_descriptor = (\<lambda>u. ''unix:'' @ u),
       fd_descriptor = (\<lambda>n. ''fd:'' @ str_of_int n) \<rparr>"

definition hooks_module :: pymodule where
  "hooks_module =
     [''when_init'' \<mapsto> PyFunction ''hooks.when_init'',
      ''when_ready'' \<mapsto> PyFunction ''hooks.when_ready'']"

definition ready_only_module :: pymodule where
  "ready_only_module = [''when_ready'' \<mapsto> PyFunction ''ready_only.when_ready'']"

definition example_world :: world where
  "example_world =
     \<lparr> os_open = (\<lambda>p. None),
       os_chdir = (\<lambda>d. None),
       os_getcwd = Inr ''/srv'',
       import_module =
         (\<lambda>name.
            if name = ''hooks'' then Inr hooks_module
            else if name = ''ready_only'' then Inr ready_only_module
            else Inl ''ModuleNotFoundError''),
       call_function = (\<lambda>f. None),
       import_by_path = (\<lambda>p. Inr (PyFunction p)),
       guarantee_single_callable = (\<lambda>f. Inr f),
       build_endpoint_description_strings =
         (\<lambda>h p u f. Inr (BuildEndpointStrings example_format h p u f)) \<rparr>"

subsection \<open>Example command lines\<close>

text \<open>
  The namespaces of some command lines, each named after what it passes besides the
  application \<^verbatim>\<open>app:instance\<close>, and the keyword arguments that the server class
  receives for them in the concrete world.
\<close>

text \<open>\<^verbatim>\<open>app:instance\<close>\<close>

definition plain_args :: namespace where
  "plain_args = default_args ''app:instance''"

definition plain_kwargs :: server_kwargs where
  "plain_kwargs =
     \<lparr> kw_application = PyFunction ''app:instance'',
       kw_endpoints = [''tcp:127.0.0.1:8000''],
       kw_http_timeout = None,
       kw_ping_interval = 20,
       kw_ping_timeout = 30,
       kw_websocket_timeout = 86400,
       kw_websocket_connect_timeout = 5,
       kw_websocket_handshake_timeout = 5,
       kw_application_close_timeout = 10,
       kw_action_logger = Some Stdout,
       kw_root_path = [],
       kw_verbosity = 1,
       kw_proxy_forwarded_address_header = None,
       kw_proxy_forwarded_port_header = None,
       kw_proxy_forwarded_proto_header = None,
       kw_server_name = ''daphne'',
       kw_ready_callable = None \<rparr>"

text \<open>\<^verbatim>\<open>--proxy-headers-host X-Real-IP app:instance\<close>\<close>

definition proxy_host_only :: namespace where
  "proxy_host_only = (default_args ''app:instance'')\<lparr>proxy_headers_host := Some ''X-Real-IP''\<rparr>"

text \<open>\<^verbatim>\<open>--proxy-headers app:instance\<close>\<close>

definition proxy_headers_only :: namespace where
  "proxy_headers_only = (default_args ''app:instance'')\<lparr>proxy_headers := True\<rparr>"

definition proxy_headers_kwargs :: server_kwargs where
  "proxy_headers_kwargs =
     plain_kwargs
       \<lparr>kw_proxy_forwarded_address_header := Some ''X-Forwarded-For'',
        kw_proxy_forwarded_port_header := Some ''X-Forwarded-Port'',
        kw_proxy_forwarded_proto_header := Some ''X-Forwarded-Proto''\<rparr>"

text \<open>
  The two header options with the empty string as their value, without and with
  \<^verbatim>\<open>--proxy-headers\<close>.
\<close>

definition empty_proxy_options :: namespace where
  "empty_proxy_options =
     (default_args ''app:instance'')
       \<lparr>proxy_headers_host := Some [], proxy_headers_port := Some []\<rparr>"

definition empty_proxy_options_on :: namespace where
  "empty_proxy_options_on =
     (default_args ''app:instance'')
       \<lparr>proxy_headers := True, proxy_headers_host := Some [], proxy_headers_port := Some []\<rparr>"

text \<open>\<^verbatim>\<open>-b 0.0.0.0 app:instance\<close> and \<^verbatim>\<open>-p 9000 app:instance\<close>\<close>

definition bind_only :: namespace where
  "bind_only = (default_args ''app:instance'')\<lparr>host := Some ''0.0.0.0''\<rparr>"

definition port_only :: namespace where
  "port_only = (default_args ''app:instance'')\<lparr>port := Some 9000\<rparr>"

text \<open>
  \<^verbatim>\<open>--access-log\<close> with the values \<^verbatim>\<open>-\<close>, a path and the empty string, the last
  also with \<^verbatim>\<open>-v 0\<close>.
\<close>

definition access_log_dash :: namespace where
  "access_log_dash = (default_args ''app:instance'')\<lparr>access_log := Some ''-''\<rparr>"

definition access_log_file :: namespace where
  "access_log_file = (default_args ''app:instance'')\<lparr>access_log := Some ''/var/log/daphne.log''\<rparr>"



text \<open>\<^verbatim>\<open>-v 0\<close>, \<^verbatim>\<open>-v 3\<close> and \<^verbatim>\<open>-v 7\<close>\<close>

definition quiet_args :: namespace where
  "quiet_args = (default_args ''app:instance'')\<lparr>verbosity := 0\<rparr>"




text \<open>\<^verbatim>\<open>--callback-module hooks app:instance\<close>\<close>

definition with_hooks :: namespace where
  "with_hooks = (default_args ''app:instance'')\<lparr>callback_module := Some ''hooks''\<rparr>"

definition with_hooks_kwargs :: server_kwargs where
  "with_hooks_kwargs = plain_kwargs\<lparr>kw_ready_callable := Some (PyFunction ''hooks.when_ready'')\<rparr>"

text \<open>\<^verbatim>\<open>-p 80 -e unix:/run/daphne.sock -e tcp:port=9000 app:instance\<close>\<close>

definition with_endpoints :: namespace where
  "with_endpoints =
     (default_args ''app:instance'')
       \<lparr>port := Some 80, socket_strings := [''unix:/run/daphne.sock'', ''tcp:port=9000'']\<rparr>"

definition with_endpoints_kwargs :: server_kwargs where
  "with_endpoints_kwargs =
     plain_kwargs
       \<lparr>kw_endpoints := [''tcp:127.0.0.1:80'', ''tcp:port=9000'', ''unix:/run/daphne.sock'']\<rparr>"

definition bind_only_kwargs :: server_kwargs where
  "bind_only_kwargs = plain_kwargs\<lparr>kw_endpoints := [''tcp:0.0.0.0:8000'']\<rparr>"

definition port_only_kwargs :: server_kwargs where
  "port_only_kwargs = plain_kwargs\<lparr>kw_endpoints := [''tcp:127.0.0.1:9000'']\<rparr>"

text \<open>\<^verbatim>\<open>-b "" -u /run/daphne.sock app:instance\<close>\<close>

definition empty_host_unix :: namespace where
  "empty_host_unix =
     (default_args ''app:instance'')\<lparr>host := Some [], unix_socket := Some ''/run/daphne.sock''\<rparr>"

definition empty_host_unix_kwargs :: server_kwargs where
  "empty_host_unix_kwargs = plain_kwargs\<lparr>kw_endpoints := [''unix:/run/daphne.sock'']\<rparr>"

text \<open>\<^verbatim>\<open>--callback-module ready_only app:instance\<close>\<close>

definition with_ready_only :: namespace where
  "with_ready_only = (default_args ''app:instance'')\<lparr>callback_module := Some ''ready_only''\<rparr>"

definition with_ready_only_kwargs :: server_kwargs where
  "with_ready_only_kwargs =
     plain_kwargs\<lparr>kw_ready_callable := Some (PyFunction ''ready_only.when_ready'')\<rparr>"




section \<open>Properties\<close>

subsection \<open>Sequencing\<close>

lemma snd_bind_io_Inr:
  "snd (bind_io m f) = Inr y \<longleftrightarrow> (\<exists>x. snd m = Inr x \<and> snd (f x) = Inr y)"
  by (cases "snd m") (simp_all add: bind_io_def)

lemma snd_bind_io_Inl:
  "snd (bind_io m f) = Inl e \<longleftrightarrow> (snd m = Inl e \<or> (\<exists>x. snd m = Inr x \<and> snd (f x) = Inl e))"
  by (cases "snd m") (simp_all add: bind_io_def)

lemma fst_bind_io:
  "fst (bind_io m f) = fst m @ (case snd m of Inl e \<Rightarrow> [] | Inr x \<Rightarrow> fst (f x))"
  by (cases "snd m") (simp_all add: bind_io_def)

lemma bind_io_Inr: "snd m = Inr x \<Longrightarrow> bind_io m f = (fst m @ fst (f x), snd (f x))"
  by (simp add: bind_io_def)

lemma bind_io_Inl: "snd m = Inl e \<Longrightarrow> bind_io m f = (fst m, Inl e)"
  by (simp add: bind_io_def)

lemma bind_io_assoc: "bind_io (bind_io m f) g = bind_io m (\<lambda>x. bind_io (f x) g)"
  by (cases "snd m") (auto simp: bind_io_def split: sum.splits)

lemma bind_io_return: "bind_io (return_io x) f = f x"
  by (simp add: bind_io_def return_io_def)

lemma run_prepare:
  "run w args =
     bind_io (prepare w args)
       (\<lambda>(s, cb, app, eps). start_server (set_up_bindings args) cb app eps s)"
  by (simp add: run_def prepare_def bind_io_assoc bind_io_return)

subsection \<open>What \<open>set_up_bindings\<close> leaves alone\<close>

lemma set_up_bindings_other [simp]:
  "proxy_headers (set_up_bindings args) = proxy_headers args"
  "proxy_headers_host (set_up_bindings args) = proxy_headers_host args"
  "proxy_headers_port (set_up_bindings args) = proxy_headers_port args"
  "verbosity (set_up_bindings args) = verbosity args"
  "socket_strings (set_up_bindings args) = socket_strings args"
  "unix_socket (set_up_bindings args) = unix_socket args"
  "file_descriptor (set_up_bindings args) = file_descriptor args"
  by (simp_all add: set_up_bindings_def)

lemma get_forwarded_set_up [simp]:
  "get_forwarded_host (set_up_bindings args) = get_forwarded_host args"
  "get_forwarded_port (set_up_bindings args) = get_forwarded_port args"
  "forwarded_proto (set_up_bindings args) = forwarded_proto args"
  by (simp_all add: get_forwarded_host_def get_forwarded_port_def forwarded_proto_def
      check_proxy_headers_passed_def)

subsection \<open>The events of each step\<close>

lemma events_configure_logging:
  "ev \<in> set (fst (configure_logging args)) \<Longrightarrow> \<exists>l f. ev = BasicConfig l f"
  by (auto simp: configure_logging_def raise_io_def emit_def split: option.splits)

lemma events_open_access_log:
  "ev \<in> set (fst (open_access_log w args)) \<Longrightarrow>
     \<exists>p. ev = Open p ''a'' 1 \<and> access_log args = Some p \<and> p \<noteq> [] \<and> p \<noteq> ''-''"
  by (cases "access_log args")
     (auto simp: open_access_log_def return_io_def perform_def truthy_def value_of_def
        split: if_splits)

lemma events_change_directory:
  "ev \<in> set (fst (change_directory w args)) \<Longrightarrow>
     (\<exists>x. ev = Print x) \<or> (\<exists>d. ev = Chdir d) \<or> ev = Getcwd"
  by (auto simp: change_directory_def fst_bind_io return_io_def perform_def emit_def
      split: if_splits sum.splits)

lemma events_load_callback_module:
  "ev \<in> set (fst (load_callback_module w args)) \<Longrightarrow>
     (\<exists>x. ev = Print x) \<or> (\<exists>name. ev = ImportModule name \<and> callback_module args = Some name)"
  by (auto simp: load_callback_module_def fst_bind_io return_io_def perform_def emit_def
      split: option.splits sum.splits)

lemma events_run_when_init:
  "ev \<in> set (fst (run_when_init w cb)) \<Longrightarrow>
     \<exists>f. ev = Call f [] \<and> getattr cb ''when_init'' = Some f \<and> py_bool (Some f)"
  by (auto simp: run_when_init_def call0_def return_io_def perform_def
      split: option.splits if_splits)

lemma events_load_application:
  "ev \<in> set (fst (load_application w args)) \<Longrightarrow>
     (\<exists>i p. ev = SysPathInsert i p) \<or> (\<exists>p. ev = ImportByPath p) \<or>
     (\<exists>f. ev = GuaranteeSingleCallable f)"
  by (auto simp: load_application_def fst_bind_io perform_def emit_def split: sum.splits)

lemma fst_resolve_endpoints:
  "fst (resolve_endpoints w args) =
     [BuildEndpointDescriptionStrings (host args) (port args) (unix_socket args)
        (file_descriptor args)]"
  by (simp add: resolve_endpoints_def fst_bind_io perform_def return_io_def split: sum.splits)

lemma events_start_server:
  "ev \<in> set (fst (start_server args cb app eps s)) \<Longrightarrow>
     (\<exists>x. ev = LoggerInfo x) \<or>
     ((ev = ServerRun \<or> (\<exists>kw. ev = ServerInit kw)) \<and>
      (\<exists>kw. server_arguments args app eps s (getattr cb ''when_ready'') = Inr kw))"
  by (cases "server_arguments args app eps s (getattr cb ''when_ready'')")
     (auto simp: start_server_def fst_bind_io emit_def lift_result_def return_io_def)

lemma in_bind_io:
  "ev \<in> set (fst (bind_io m f)) \<Longrightarrow>
     ev \<in> set (fst m) \<or> (\<exists>x. snd m = Inr x \<and> ev \<in> set (fst (f x)))"
  by (cases "snd m") (auto simp: bind_io_def)

lemma events_prepare_steps:
  assumes "ev \<in> set (fst (prepare w args))"
  shows "ev \<in> set (fst (configure_logging args)) \<or>
         ev \<in> set (fst (open_access_log w args)) \<or>
         ev \<in> set (fst (change_directory w args)) \<or>
         ev \<in> set (fst (load_callback_module w args)) \<or>
         (\<exists>cb. snd (load_callback_module w args) = Inr cb \<and>
               ev \<in> set (fst (run_when_init w cb))) \<or>
         ev \<in> set (fst (load_application w args)) \<or>
         ev \<in> set (fst (resolve_endpoints w (set_up_bindings args)))"
  using assms unfolding prepare_def
  by (auto dest!: in_bind_io simp: return_io_def)

subsection \<open>The result of each step\<close>

lemma snd_start_server:
  "snd (start_server args cb app eps s) =
     server_arguments args app eps s (getattr cb ''when_ready'')"
  by (cases "server_arguments args app eps s (getattr cb ''when_ready'')")
     (simp_all add: start_server_def bind_io_def emit_def lift_result_def return_io_def)

lemma snd_run:
  "snd (run w args) =
     (case snd (prepare w args) of
        Inl e \<Rightarrow> Inl e
      | Inr (s, cb, app, eps) \<Rightarrow>
          server_arguments (set_up_bindings args) app eps s (getattr cb ''when_ready''))"
  by (cases "snd (prepare w args)") (auto simp: run_prepare bind_io_def snd_start_server)

lemma prepare_Inr:
  "snd (prepare w args) = Inr (s, cb, app, eps) \<longleftrightarrow>
     snd (configure_logging args) = Inr () \<and>
     snd (open_access_log w args) = Inr s \<and>
     snd (change_directory w args) = Inr () \<and>
     snd (load_callback_module w args) = Inr cb \<and>
     snd (run_when_init w cb) = Inr () \<and>
     snd (load_application w args) = Inr app \<and>
     snd (resolve_endpoints w (set_up_bindings args)) = Inr eps"
  by (auto simp: prepare_def snd_bind_io_Inr return_io_def)

lemma run_Inr:
  "snd (run w args) = Inr kw \<longleftrightarrow>
     (\<exists>s cb app eps.
        snd (prepare w args) = Inr (s, cb, app, eps) \<and>
        server_arguments (set_up_bindings args) app eps s (getattr cb ''when_ready'') = Inr kw)"
  by (cases "snd (prepare w args)") (auto simp: snd_run)

lemma server_arguments_Inr:
  "server_arguments args app eps s r = Inr kw \<Longrightarrow>
     get_forwarded_host args = Inr (kw_proxy_forwarded_address_header kw) \<and>
     get_forwarded_port args = Inr (kw_proxy_forwarded_port_header kw) \<and>
     kw_proxy_forwarded_proto_header kw = forwarded_proto args \<and>
     kw_endpoints kw = eps \<and> kw_action_logger kw = s \<and> kw_ready_callable kw = r \<and>
     kw_application kw = app \<and> kw_verbosity kw = verbosity args"
  by (auto simp: server_arguments_def split: sum.splits)

lemma in_bind_io_Inl:
  "snd (bind_io m f) = Inl e \<Longrightarrow> snd m = Inl e \<or> (\<exists>x. snd m = Inr x \<and> snd (f x) = Inl e)"
  by (simp add: snd_bind_io_Inl)

lemma step_errors:
  "snd (configure_logging args) \<noteq> Inl (ArgumentError a m)"
  "snd (open_access_log w args) \<noteq> Inl (ArgumentError a m)"
  "snd (change_directory w args) \<noteq> Inl (ArgumentError a m)"
  "snd (load_callback_module w args) \<noteq> Inl (ArgumentError a m)"
  "snd (run_when_init w cb) \<noteq> Inl (ArgumentError a m)"
  "snd (load_application w args) \<noteq> Inl (ArgumentError a m)"
  "snd (resolve_endpoints w args) \<noteq> Inl (ArgumentError a m)"
proof -
  show "snd (configure_logging args) \<noteq> Inl (ArgumentError a m)"
    by (simp add: configure_logging_def raise_io_def emit_def split: option.splits)
  show "snd (open_access_log w args) \<noteq> Inl (ArgumentError a m)"
    by (simp add: open_access_log_def return_io_def perform_def split: option.splits)
  show "snd (change_directory w args) \<noteq> Inl (ArgumentError a m)"
    by (auto simp: change_directory_def snd_bind_io_Inl return_io_def perform_def emit_def
        unit_result_def split: option.splits sum.splits if_splits)
  show "snd (load_callback_module w args) \<noteq> Inl (ArgumentError a m)"
    by (auto simp: load_callback_module_def snd_bind_io_Inl return_io_def perform_def emit_def
        split: option.splits sum.splits)
  show "snd (run_when_init w cb) \<noteq> Inl (ArgumentError a m)"
    by (auto simp: run_when_init_def call0_def return_io_def perform_def unit_result_def
        split: option.splits pyobj.splits)
  show "snd (load_application w args) \<noteq> Inl (ArgumentError a m)"
    by (auto simp: load_application_def snd_bind_io_Inl perform_def emit_def
        split: sum.splits)
  show "snd (resolve_endpoints w args) \<noteq> Inl (ArgumentError a m)"
    by (auto simp: resolve_endpoints_def snd_bind_io_Inl perform_def return_io_def
        split: sum.splits)
qed

lemma prepare_no_ArgumentError: "snd (prepare w args) \<noteq> Inl (ArgumentError a m)"
  unfolding prepare_def
  by (auto dest!: in_bind_io_Inl simp: step_errors return_io_def)

subsection \<open>The trace of a run\<close>

lemma fst_prepare_Inr:
  assumes "snd (prepare w args) = Inr (s, cb, app, eps)"
  shows "fst (prepare w args) =
           fst (configure_logging args) @ fst (open_access_log w args) @
           fst (change_directory w args) @ fst (load_callback_module w args) @
           fst (run_when_init w cb) @ fst (load_application w args) @
           fst (resolve_endpoints w (set_up_bindings args))"
  using assms unfolding prepare_Inr
  by (simp add: prepare_def fst_bind_io return_io_def)

lemma fst_start_server:
  "fst (start_server args cb app eps s) =
     LoggerInfo (''Starting server at '' @ join '', '' eps) #
     (case server_arguments args app eps s (getattr cb ''when_ready'') of
        Inl e \<Rightarrow> []
      | Inr kw \<Rightarrow> [ServerInit kw, ServerRun])"
  by (cases "server_arguments args app eps s (getattr cb ''when_ready'')")
     (simp_all add: start_server_def fst_bind_io emit_def lift_result_def return_io_def)

lemma fst_run:
  "fst (run w args) =
     fst (prepare w args) @
     (case snd (prepare w args) of
        Inl e \<Rightarrow> []
      | Inr (s, cb, app, eps) \<Rightarrow> fst (start_server (set_up_bindings args) cb app eps s))"
  by (cases "snd (prepare w args)") (auto simp: run_prepare fst_bind_io)

lemma prepare_not_server:
  "ServerInit kw \<notin> set (fst (prepare w args))"
  "ServerRun \<notin> set (fst (prepare w args))"
  by (auto dest!: events_prepare_steps simp: fst_resolve_endpoints
      dest: events_configure_logging events_open_access_log events_change_directory
        events_load_callback_module events_run_when_init events_load_application)

lemma resolve_endpoints_in_prepare:
  assumes "snd (prepare w args) = Inr x"
  shows "BuildEndpointDescriptionStrings (host (set_up_bindings args))
           (port (set_up_bindings args)) (unix_socket args) (file_descriptor args)
         \<in> set (fst (prepare w args))"
proof -
  obtain s cb app eps where "x = (s, cb, app, eps)"
    by (cases x) auto
  with assms show ?thesis
    by (simp add: fst_prepare_Inr fst_resolve_endpoints)
qed

lemma server_arguments_host_unchecked:
  assumes "truthy (proxy_headers_host args)" and "\<not> proxy_headers args"
  shows "server_arguments args app eps s r =
           Inl (ArgumentError ''--proxy-headers-host''
                  ''--proxy-headers has to be passed for this parameter.'')"
  using assms
  by (simp add: server_arguments_def get_forwarded_host_def check_proxy_headers_passed_def
      arg_proxy_host_def)

lemmas example_defs =
  default_args_def configure_logging_def verbosity_levels_def emit_def open_access_log_def
  truthy_def return_io_def raise_io_def change_directory_def bind_io_def perform_def
  example_world_def load_callback_module_def run_when_init_def getattr_def py_bool_def
  call0_def unit_result_def hooks_module_def load_application_def resolve_endpoints_def
  set_up_bindings_def any_binding_def DEFAULT_HOST_def DEFAULT_PORT_def
  BuildEndpointStrings_def example_format_def value_of_def str_of_int_def

lemmas header_defs =
  server_arguments_def get_forwarded_host_def get_forwarded_port_def forwarded_proto_def
  check_proxy_headers_passed_def arg_proxy_host_def arg_proxy_port_def truthy_def
  default_args_def

lemma proxy_host_only_prepare:
  "snd (prepare example_world proxy_host_only) =
     Inr (Some Stdout, None, PyFunction ''app:instance'', [''tcp:127.0.0.1:8000''])"
  unfolding prepare_Inr by (simp add: proxy_host_only_def example_defs)

lemma proxy_host_only_trace:
  "fst (prepare example_world proxy_host_only) =
     [BasicConfig INFO ''%(asctime)-15s %(levelname)-8s %(message)s'',
      Getcwd,
      Print ''Current working directory: /srv'',
      Print ''Not looking for module'',
      SysPathInsert 0 ''.'',
      ImportByPath ''app:instance'',
      GuaranteeSingleCallable (PyFunction ''app:instance''),
      BuildEndpointDescriptionStrings (Some ''127.0.0.1'') (Some 8000) None None]"
  unfolding fst_prepare_Inr [OF proxy_host_only_prepare]
  by (simp add: proxy_host_only_def example_defs)

lemma set_up_bindings_more [simp]:
  "http_timeout (set_up_bindings args) = http_timeout args"
  "ping_interval (set_up_bindings args) = ping_interval args"
  "ping_timeout (set_up_bindings args) = ping_timeout args"
  "websocket_timeout (set_up_bindings args) = websocket_timeout args"
  "websocket_connect_timeout (set_up_bindings args) = websocket_connect_timeout args"
  "application_close_timeout (set_up_bindings args) = application_close_timeout args"
  "root_path (set_up_bindings args) = root_path args"
  "server_name (set_up_bindings args) = server_name args"
  by (simp_all add: set_up_bindings_def)

lemma server_arguments_set_up:
  "server_arguments (set_up_bindings args) app eps s r = server_arguments args app eps s r"
  by (simp add: server_arguments_def split: sum.splits)

subsection \<open>Runs in the concrete world\<close>

lemma example_steps:
  "verbosity_levels (verbosity args) = Some l \<Longrightarrow> snd (configure_logging args) = Inr ()"
  "\<not> truthy (access_log args) \<Longrightarrow>
     snd (open_access_log example_world args) =
       Inr (if 1 \<le> verbosity args then Some Stdout else None)"
  "snd (change_directory example_world args) = Inr ()"
  "callback_module args = None \<Longrightarrow> snd (load_callback_module example_world args) = Inr None"
  "callback_module args = Some ''hooks'' \<Longrightarrow>
     snd (load_callback_module example_world args) = Inr (Some hooks_module)"
  "snd (run_when_init example_world None) = Inr ()"
  "snd (run_when_init example_world (Some hooks_module)) = Inr ()"
  "snd (load_application example_world args) = Inr (PyFunction (application args))"
  "snd (resolve_endpoints example_world args) =
     Inr (sort (socket_strings args @
            BuildEndpointStrings example_format (host args) (port args) (unix_socket args)
              (file_descriptor args)))"
proof -
  show "verbosity_levels (verbosity args) = Some l \<Longrightarrow> snd (configure_logging args) = Inr ()"
    by (simp add: configure_logging_def emit_def)
  show "\<not> truthy (access_log args) \<Longrightarrow>
     snd (open_access_log example_world args) =
       Inr (if 1 \<le> verbosity args then Some Stdout else None)"
    by (simp add: open_access_log_def return_io_def)
  show "snd (change_directory example_world args) = Inr ()"
    by (simp add: change_directory_def snd_bind_io_Inr return_io_def perform_def emit_def
        unit_result_def example_world_def)
  show "callback_module args = None \<Longrightarrow> snd (load_callback_module example_world args) = Inr None"
    by (simp add: load_callback_module_def snd_bind_io_Inr return_io_def emit_def)
  show "callback_module args = Some ''hooks'' \<Longrightarrow>
     snd (load_callback_module example_world args) = Inr (Some hooks_module)"
    by (simp add: load_callback_module_def snd_bind_io_Inr return_io_def emit_def perform_def
        example_world_def)
  show "snd (run_when_init example_world None) = Inr ()"
    by (simp add: run_when_init_def getattr_def return_io_def)
  show "snd (run_when_init example_world (Some hooks_module)) = Inr ()"
    by (simp add: run_when_init_def getattr_def hooks_module_def py_bool_def call0_def
        perform_def unit_result_def example_world_def)
  show "snd (load_application example_world args) = Inr (PyFunction (application args))"
    by (simp add: load_application_def snd_bind_io_Inr emit_def perform_def example_world_def)
  show "snd (resolve_endpoints example_world args) =
     Inr (sort (socket_strings args @
            BuildEndpointStrings example_format (host args) (port args) (unix_socket args)
              (file_descriptor args)))"
    by (simp add: resolve_endpoints_def snd_bind_io_Inr perform_def return_io_def
        example_world_def)
qed

lemma example_run:
  assumes "verbosity_levels (verbosity args) = Some l" and "\<not> truthy (access_log args)"
    and "callback_module args = None"
  shows "snd (run example_world args) =
           server_arguments args (PyFunction (application args))
             (sort (socket_strings args @
                BuildEndpointStrings example_format (host (set_up_bindings args))
                  (port (set_up_bindings args)) (unix_socket args) (file_descriptor args)))
             (if 1 \<le> verbosity args then Some Stdout else None) None"
proof -
  have "snd (prepare example_world args) =
          Inr (if 1 \<le> verbosity args then Some Stdout else None, None,
               PyFunction (application args),
               sort (socket_strings args @
                 BuildEndpointStrings example_format (host (set_up_bindings args))
                   (port (set_up_bindings args)) (unix_socket args) (file_descriptor args)))"
    unfolding prepare_Inr using assms by (simp add: example_steps)
  then show ?thesis
    by (simp add: snd_run server_arguments_set_up getattr_def)
qed

lemma default_bindings:
  "\<not> any_binding args \<Longrightarrow>
     BuildEndpointStrings example_format (host (set_up_bindings args))
       (port (set_up_bindings args)) (unix_socket args) (file_descriptor args) =
     [''tcp:127.0.0.1:8000'']"
  by (simp add: set_up_bindings_def any_binding_def BuildEndpointStrings_def truthy_def
      value_of_def example_format_def DEFAULT_HOST_def DEFAULT_PORT_def str_of_int_def
      split: option.splits)

lemma example_run_default_bindings:
  assumes "verbosity_levels (verbosity args) = Some l" and "\<not> truthy (access_log args)"
    and "callback_module args = None" and "\<not> any_binding args"
  shows "snd (run example_world args) =
           server_arguments args (PyFunction (application args)) [''tcp:127.0.0.1:8000'']
             (if 1 \<le> verbosity args then Some Stdout else None) None"
proof -
  have "socket_strings args = []"
    using assms(4) by (simp add: any_binding_def)
  then show ?thesis
    using example_run [OF assms(1-3)] default_bindings [OF assms(4)] by simp
qed

lemma plain_run: "snd (run example_world plain_args) = Inr plain_kwargs"
  by (subst example_run_default_bindings [where l = INFO])
     (simp_all add: plain_args_def any_binding_def header_defs verbosity_levels_def
        plain_kwargs_def)

lemma proxy_headers_only_run:
  "snd (run example_world proxy_headers_only) = Inr proxy_headers_kwargs"
  by (subst example_run_default_bindings [where l = INFO])
     (simp_all add: proxy_headers_only_def proxy_headers_kwargs_def any_binding_def
        header_defs verbosity_levels_def plain_kwargs_def)

lemma empty_proxy_options_run:
  "snd (run example_world empty_proxy_options) = Inr plain_kwargs"
  by (subst example_run_default_bindings [where l = INFO])
     (simp_all add: empty_proxy_options_def any_binding_def header_defs verbosity_levels_def
        plain_kwargs_def)

lemma run_Inr_action_logger:
  assumes "snd (run w args) = Inr kw"
  shows "snd (open_access_log w args) = Inr (kw_action_logger kw)"
  using assms by (auto simp: run_Inr prepare_Inr dest!: server_arguments_Inr)

lemma events_run:
  assumes "ev \<in> set (fst (run w args))"
  shows "ev \<in> set (fst (prepare w args)) \<or> (\<exists>x. ev = LoggerInfo x) \<or> ev = ServerRun \<or>
         (\<exists>kw. ev = ServerInit kw)"
  using assms
  by (cases "snd (prepare w args)")
     (auto simp: fst_run fst_start_server split: sum.splits)





lemma run_Inr_endpoints:
  assumes "snd (run w args) = Inr kw"
  shows "snd (resolve_endpoints w (set_up_bindings args)) = Inr (kw_endpoints kw)"
  using assms by (auto simp: run_Inr prepare_Inr dest!: server_arguments_Inr)

lemma snd_resolve_endpoints:
  "snd (resolve_endpoints w args) =
     (case build_endpoint_description_strings w (host args) (port args) (unix_socket args)
             (file_descriptor args) of
        Inl e \<Rightarrow> Inl (Propagated e)
      | Inr eps \<Rightarrow> Inr (sort (socket_strings args @ eps)))"
  by (simp add: resolve_endpoints_def bind_io_def perform_def return_io_def split: sum.splits)

lemma with_builder_build:
  "build_endpoint_description_strings (with_builder fmt w) h p u f =
     Inr (BuildEndpointStrings fmt h p u f)"
  by (simp add: with_builder_def)

lemma with_builder_example: "with_builder example_format example_world = example_world"
  by (simp add: with_builder_def example_world_def)

lemma with_endpoints_sorted:
  "sort ([''unix:/run/daphne.sock'', ''tcp:port=9000''] @ [''tcp:127.0.0.1:80'']) =
     [''tcp:127.0.0.1:80'', ''tcp:port=9000'', ''unix:/run/daphne.sock'']"
  by (simp add: less_eq_char_def less_char_def)

lemma with_endpoints_run:
  "snd (run example_world with_endpoints) = Inr with_endpoints_kwargs"
proof -
  have b: "BuildEndpointStrings example_format (host (set_up_bindings with_endpoints))
             (port (set_up_bindings with_endpoints)) (unix_socket with_endpoints)
             (file_descriptor with_endpoints) = [''tcp:127.0.0.1:80'']"
    by (simp add: with_endpoints_def default_args_def set_up_bindings_def any_binding_def
        truthy_def BuildEndpointStrings_def value_of_def example_format_def str_of_int_def
        DEFAULT_HOST_def)
  have f: "verbosity_levels (verbosity with_endpoints) = Some INFO"
    "\<not> truthy (access_log with_endpoints)" "callback_module with_endpoints = None"
    "socket_strings with_endpoints = [''unix:/run/daphne.sock'', ''tcp:port=9000'']"
    by (simp_all add: with_endpoints_def default_args_def verbosity_levels_def truthy_def)
  have "snd (run example_world with_endpoints) =
          server_arguments with_endpoints (PyFunction (application with_endpoints))
            [''tcp:127.0.0.1:80'', ''tcp:port=9000'', ''unix:/run/daphne.sock'']
            (if 1 \<le> verbosity with_endpoints then Some Stdout else None) None"
    using example_run [OF f(1-3)] by (simp only: b f(4) with_endpoints_sorted)
  then show ?thesis
    by (simp add: with_endpoints_def with_endpoints_kwargs_def header_defs plain_kwargs_def)
qed

lemma import_module_reached:
  assumes "ImportModule name \<in> set (fst (run w args))"
  shows "snd (configure_logging args) = Inr () \<and> (\<exists>s. snd (open_access_log w args) = Inr s) \<and>
         snd (change_directory w args) = Inr () \<and> callback_module args = Some name"
proof -
  from assms have "ImportModule name \<in> set (fst (prepare w args))"
    by (auto dest: events_run)
  then show ?thesis
    unfolding prepare_def fst_bind_io
    by (cases "snd (configure_logging args)"; cases "snd (open_access_log w args)";
        cases "snd (change_directory w args)")
       (auto simp: fst_resolve_endpoints return_io_def split: sum.splits
          dest: events_configure_logging events_open_access_log events_change_directory
            events_load_callback_module events_run_when_init events_load_application)
qed

lemma fst_load_application:
  "fst (load_application w args) =
     SysPathInsert 0 ''.'' # ImportByPath (application args) #
     (case import_by_path w (application args) of
        Inl e \<Rightarrow> []
      | Inr app \<Rightarrow> [GuaranteeSingleCallable app])"
  by (simp add: load_application_def fst_bind_io emit_def perform_def split: sum.splits)

lemma with_hooks_prepare:
  "snd (prepare example_world with_hooks) =
     Inr (Some Stdout, Some hooks_module, PyFunction ''app:instance'', [''tcp:127.0.0.1:8000''])"
proof -
  have f: "verbosity_levels (verbosity with_hooks) = Some INFO"
    "\<not> truthy (access_log with_hooks)" "callback_module with_hooks = Some ''hooks''"
    "verbosity with_hooks = 1" "application with_hooks = ''app:instance''"
    "socket_strings with_hooks = []" "\<not> any_binding with_hooks"
    by (simp_all add: with_hooks_def default_args_def verbosity_levels_def truthy_def
        any_binding_def)
  show ?thesis
    unfolding prepare_Inr
    using f(1-3) by (simp add: example_steps default_bindings [OF f(7)] f(4-6))
qed

lemma with_hooks_run: "snd (run example_world with_hooks) = Inr with_hooks_kwargs"
  by (simp add: snd_run with_hooks_prepare server_arguments_set_up)
     (simp add: with_hooks_def with_hooks_kwargs_def header_defs plain_kwargs_def getattr_def
        hooks_module_def)

lemma with_hooks_imports:
  "ImportModule ''hooks'' \<in> set (fst (run example_world with_hooks))"
proof -
  have "callback_module with_hooks = Some ''hooks''"
    by (simp add: with_hooks_def default_args_def)
  then have "ImportModule ''hooks'' \<in> set (fst (load_callback_module example_world with_hooks))"
    by (simp add: load_callback_module_def fst_bind_io emit_def perform_def)
  then show ?thesis
    by (simp add: fst_run fst_prepare_Inr [OF with_hooks_prepare])
qed

lemma Build_in_run:
  assumes "BuildEndpointDescriptionStrings h q u f \<in> set (fst (run w args))"
  shows "h = host (set_up_bindings args) \<and> q = port (set_up_bindings args) \<and>
         u = unix_socket args \<and> f = file_descriptor args"
proof -
  from assms have "BuildEndpointDescriptionStrings h q u f \<in> set (fst (prepare w args))"
    by (auto dest: events_run)
  then show ?thesis
    by (auto dest!: events_prepare_steps simp: fst_resolve_endpoints
        dest: events_configure_logging events_open_access_log events_change_directory
          events_load_callback_module events_run_when_init events_load_application)
qed

lemma resolve_endpoints_in_run:
  assumes "snd (prepare w args) = Inr x"
  shows "BuildEndpointDescriptionStrings (host (set_up_bindings args))
           (port (set_up_bindings args)) (unix_socket args) (file_descriptor args)
         \<in> set (fst (run w args))"
  using resolve_endpoints_in_prepare [OF assms] by (simp add: fst_run)

lemma run_Inr_derived:
  assumes "snd (run w args) = Inr kw"
  shows "\<exists>derived.
           build_endpoint_description_strings w (host (set_up_bindings args))
             (port (set_up_bindings args)) (unix_socket args) (file_descriptor args) =
             Inr derived \<and>
           kw_endpoints kw = sort (socket_strings args @ derived)"
  using run_Inr_endpoints [OF assms]
  by (auto simp: snd_resolve_endpoints split: sum.splits)

lemma example_prepare:
  assumes "verbosity_levels (verbosity args) = Some l" and "\<not> truthy (access_log args)"
    and "callback_module args = None"
  shows "snd (prepare example_world args) =
          Inr (if 1 \<le> verbosity args then Some Stdout else None, None,
               PyFunction (application args),
               sort (socket_strings args @
                 BuildEndpointStrings example_format (host (set_up_bindings args))
                   (port (set_up_bindings args)) (unix_socket args) (file_descriptor args)))"
  unfolding prepare_Inr using assms by (simp add: example_steps)

lemma bind_only_facts:
  "truthy (host bind_only)" "port bind_only = None" "host bind_only = Some ''0.0.0.0''"
  "unix_socket bind_only = None" "file_descriptor bind_only = None"
  "socket_strings bind_only = []" "verbosity_levels (verbosity bind_only) = Some INFO"
  "\<not> truthy (access_log bind_only)" "callback_module bind_only = None"
  "verbosity bind_only = 1" "application bind_only = ''app:instance''"
  by (simp_all add: bind_only_def default_args_def truthy_def verbosity_levels_def)

lemma bind_only_build:
  "BuildEndpointStrings example_format (Some ''0.0.0.0'') (Some 8000) None None =
     [''tcp:0.0.0.0:8000'']"
  by (simp add: BuildEndpointStrings_def truthy_def value_of_def example_format_def
      str_of_int_def)

lemma bind_only_bindings:
  "host (set_up_bindings bind_only) = Some ''0.0.0.0''"
  "port (set_up_bindings bind_only) = Some 8000"
  using bind_only_facts(1-3)
  by (simp_all add: set_up_bindings_def any_binding_def DEFAULT_PORT_def)

lemma bind_only_prepare:
  "snd (prepare example_world bind_only) =
     Inr (Some Stdout, None, PyFunction ''app:instance'', [''tcp:0.0.0.0:8000''])"
  using example_prepare [OF bind_only_facts(7-9)]
  by (simp add: bind_only_bindings bind_only_facts(4-6,10,11) bind_only_build)

lemma bind_only_run: "snd (run example_world bind_only) = Inr bind_only_kwargs"
  by (simp add: snd_run bind_only_prepare server_arguments_set_up)
     (simp add: bind_only_def bind_only_kwargs_def header_defs plain_kwargs_def getattr_def)

lemma port_only_facts:
  "\<not> truthy (host port_only)" "port port_only = Some 9000"
  "unix_socket port_only = None" "file_descriptor port_only = None"
  "socket_strings port_only = []" "verbosity_levels (verbosity port_only) = Some INFO"
  "\<not> truthy (access_log port_only)" "callback_module port_only = None"
  "verbosity port_only = 1" "application port_only = ''app:instance''"
  by (simp_all add: port_only_def default_args_def truthy_def verbosity_levels_def)

lemma port_only_build:
  "BuildEndpointStrings example_format (Some ''127.0.0.1'') (Some 9000) None None =
     [''tcp:127.0.0.1:9000'']"
  by (simp add: BuildEndpointStrings_def truthy_def value_of_def example_format_def
      str_of_int_def)

lemma port_only_bindings:
  "host (set_up_bindings port_only) = Some ''127.0.0.1''"
  "port (set_up_bindings port_only) = Some 9000"
  using port_only_facts(1,2)
  by (simp_all add: set_up_bindings_def any_binding_def DEFAULT_HOST_def)

lemma port_only_prepare:
  "snd (prepare example_world port_only) =
     Inr (Some Stdout, None, PyFunction ''app:instance'', [''tcp:127.0.0.1:9000''])"
  using example_prepare [OF port_only_facts(6-8)]
  by (simp add: port_only_bindings port_only_facts(3-5,9,10) port_only_build)

lemma port_only_run: "snd (run example_world port_only) = Inr port_only_kwargs"
  by (simp add: snd_run port_only_prepare server_arguments_set_up)
     (simp add: port_only_def port_only_kwargs_def header_defs plain_kwargs_def getattr_def)

lemma empty_host_unix_facts:
  "host empty_host_unix = Some []" "port empty_host_unix = None"
  "unix_socket empty_host_unix = Some ''/run/daphne.sock''"
  "file_descriptor empty_host_unix = None"
  "socket_strings empty_host_unix = []"
  "verbosity_levels (verbosity empty_host_unix) = Some INFO"
  "\<not> truthy (access_log empty_host_unix)" "callback_module empty_host_unix = None"
  "verbosity empty_host_unix = 1" "application empty_host_unix = ''app:instance''"
  by (simp_all add: empty_host_unix_def default_args_def truthy_def verbosity_levels_def)

lemma empty_host_unix_build:
  "BuildEndpointStrings example_format (Some []) None (Some ''/run/daphne.sock'') None =
     [''unix:/run/daphne.sock'']"
  by (simp add: BuildEndpointStrings_def truthy_def value_of_def example_format_def)

lemma empty_host_unix_bindings:
  "host (set_up_bindings empty_host_unix) = Some []"
  "port (set_up_bindings empty_host_unix) = None"
  using empty_host_unix_facts(1-3)
  by (simp_all add: set_up_bindings_def any_binding_def truthy_def)

lemma empty_host_unix_prepare:
  "snd (prepare example_world empty_host_unix) =
     Inr (Some Stdout, None, PyFunction ''app:instance'', [''unix:/run/daphne.sock''])"
  using example_prepare [OF empty_host_unix_facts(6-8)]
  by (simp add: empty_host_unix_bindings empty_host_unix_facts(3-5,9,10)
      empty_host_unix_build)

lemma empty_host_unix_run:
  "snd (run example_world empty_host_unix) = Inr empty_host_unix_kwargs"
  by (simp add: snd_run empty_host_unix_prepare server_arguments_set_up)
     (simp add: empty_host_unix_def empty_host_unix_kwargs_def header_defs plain_kwargs_def
        getattr_def)



lemma ready_only_steps:
  "callback_module args = Some ''ready_only'' \<Longrightarrow>
     snd (load_callback_module example_world args) = Inr (Some ready_only_module)"
  "snd (run_when_init example_world (Some ready_only_module)) = Inr ()"
proof -
  show "callback_module args = Some ''ready_only'' \<Longrightarrow>
     snd (load_callback_module example_world args) = Inr (Some ready_only_module)"
    by (simp add: load_callback_module_def snd_bind_io_Inr return_io_def emit_def perform_def
        example_world_def)
  show "snd (run_when_init example_world (Some ready_only_module)) = Inr ()"
    by (simp add: run_when_init_def getattr_def ready_only_module_def return_io_def)
qed

lemma with_ready_only_prepare:
  "snd (prepare example_world with_ready_only) =
     Inr (Some Stdout, Some ready_only_module, PyFunction ''app:instance'',
          [''tcp:127.0.0.1:8000''])"
proof -
  have f: "verbosity_levels (verbosity with_ready_only) = Some INFO"
    "\<not> truthy (access_log with_ready_only)"
    "callback_module with_ready_only = Some ''ready_only''"
    "verbosity with_ready_only = 1" "application with_ready_only = ''app:instance''"
    "socket_strings with_ready_only = []" "\<not> any_binding with_ready_only"
    by (simp_all add: with_ready_only_def default_args_def verbosity_levels_def truthy_def
        any_binding_def)
  show ?thesis
    unfolding prepare_Inr
    using f(1-3)
    by (simp add: example_steps ready_only_steps default_bindings [OF f(7)] f(4-6))
qed

lemma with_ready_only_run:
  "snd (run example_world with_ready_only) = Inr with_ready_only_kwargs"
  by (simp add: snd_run with_ready_only_prepare server_arguments_set_up)
     (simp add: with_ready_only_def with_ready_only_kwargs_def header_defs plain_kwargs_def
        getattr_def ready_only_module_def)

lemma with_ready_only_imports:
  "ImportModule ''ready_only'' \<in> set (fst (run example_world with_ready_only))"
proof -
  have "callback_module with_ready_only = Some ''ready_only''"
    by (simp add: with_ready_only_def default_args_def)
  then have "ImportModule ''ready_only''
      \<in> set (fst (load_callback_module example_world with_ready_only))"
    by (simp add: load_callback_module_def fst_bind_io emit_def perform_def)
  then show ?thesis
    by (simp add: fst_run fst_prepare_Inr [OF with_ready_only_prepare])
qed

section \<open>The claims\<close>

text \<open>
  C1, as the code has it. When \<^verbatim>\<open>--proxy-headers-host\<close> has a non-empty value and
  \<^verbatim>\<open>--proxy-headers\<close> is not passed, no run starts a server. The check is made where the
  arguments of the server class are evaluated, which is after the endpoints were resolved:
  when every step before it succeeds, the run ends with the \<^verbatim>\<open>ArgumentError\<close> of
  \<^verbatim>\<open>_check_proxy_headers_passed\<close> and the call of the endpoint builder is in its trace;
  when one of those steps raises, the run ends with that exception.
\<close>

theorem proxy_headers_host_without_proxy_headers:
  assumes "truthy (proxy_headers_host args)" and "\<not> proxy_headers args"
  shows "snd (run w args) \<noteq> Inr kw \<and>
         ServerInit kw \<notin> set (fst (run w args)) \<and>
         ServerRun \<notin> set (fst (run w args)) \<and>
         (snd (prepare w args) = Inr x \<longrightarrow>
            snd (run w args) =
              Inl (ArgumentError ''--proxy-headers-host''
                     ''--proxy-headers has to be passed for this parameter.'') \<and>
            BuildEndpointDescriptionStrings (host (set_up_bindings args))
              (port (set_up_bindings args)) (unix_socket args) (file_descriptor args)
            \<in> set (fst (run w args))) \<and>
         (snd (prepare w args) = Inl e \<longrightarrow> snd (run w args) = Inl e)"
proof -
  have sa: "server_arguments (set_up_bindings args) app eps s r =
              Inl (ArgumentError ''--proxy-headers-host''
                     ''--proxy-headers has to be passed for this parameter.'')"
    for app eps s r
    using assms by (intro server_arguments_host_unchecked) simp_all
  have 1: "snd (run w args) \<noteq> Inr kw"
    by (simp add: run_Inr sa)
  have 2: "ServerInit kw \<notin> set (fst (run w args))" "ServerRun \<notin> set (fst (run w args))"
    by (auto simp: fst_run fst_start_server sa prepare_not_server split: sum.splits)
  have 3: "snd (run w args) =
              Inl (ArgumentError ''--proxy-headers-host''
                     ''--proxy-headers has to be passed for this parameter.'') \<and>
            BuildEndpointDescriptionStrings (host (set_up_bindings args))
              (port (set_up_bindings args)) (unix_socket args) (file_descriptor args)
            \<in> set (fst (run w args))"
    if "snd (prepare w args) = Inr x"
    using that resolve_endpoints_in_prepare [OF that]
    by (cases x) (simp add: snd_run sa fst_run)
  have 4: "snd (run w args) = Inl e" if "snd (prepare w args) = Inl e"
    using that by (simp add: snd_run)
  from 1 2 3 4 show ?thesis by blast
qed

text \<open>
  C1, as stated, fails on \<^verbatim>\<open>--proxy-headers-host X-Real-IP app:instance\<close>: the run
  imports the application and calls the endpoint builder with 127.0.0.1 and 8000, logs
  the endpoints, and only then raises the error.
\<close>

theorem proxy_check_after_endpoints_counterexample:
  "truthy (proxy_headers_host proxy_host_only) \<and> \<not> proxy_headers proxy_host_only \<and>
   run example_world proxy_host_only =
     ([BasicConfig INFO ''%(asctime)-15s %(levelname)-8s %(message)s'',
       Getcwd,
       Print ''Current working directory: /srv'',
       Print ''Not looking for module'',
       SysPathInsert 0 ''.'',
       ImportByPath ''app:instance'',
       GuaranteeSingleCallable (PyFunction ''app:instance''),
       BuildEndpointDescriptionStrings (Some ''127.0.0.1'') (Some 8000) None None,
       LoggerInfo ''Starting server at tcp:127.0.0.1:8000''],
      Inl (ArgumentError ''--proxy-headers-host''
             ''--proxy-headers has to be passed for this parameter.''))"
proof -
  have h: "truthy (proxy_headers_host proxy_host_only)" "\<not> proxy_headers proxy_host_only"
    by (simp_all add: proxy_host_only_def default_args_def truthy_def)
  have sa: "server_arguments (set_up_bindings proxy_host_only) app eps s r =
              Inl (ArgumentError ''--proxy-headers-host''
                     ''--proxy-headers has to be passed for this parameter.'')"
    for app eps s r
    using h by (intro server_arguments_host_unchecked) simp_all
  have "fst (run example_world proxy_host_only) =
          fst (prepare example_world proxy_host_only) @
          [LoggerInfo ''Starting server at tcp:127.0.0.1:8000'']"
    by (simp add: fst_run proxy_host_only_prepare fst_start_server sa)
  moreover have "snd (run example_world proxy_host_only) =
          Inl (ArgumentError ''--proxy-headers-host''
                 ''--proxy-headers has to be passed for this parameter.'')"
    by (simp add: snd_run proxy_host_only_prepare sa)
  ultimately show ?thesis
    using h by (simp add: proxy_host_only_trace prod_eq_iff)
qed

theorem proxy_headers_host_without_proxy_headers_witness:
  "truthy (proxy_headers_host proxy_host_only) \<and> \<not> proxy_headers proxy_host_only \<and>
   snd (prepare example_world proxy_host_only) =
     Inr (Some Stdout, None, PyFunction ''app:instance'', [''tcp:127.0.0.1:8000'']) \<and>
   snd (run example_world proxy_host_only) =
     Inl (ArgumentError ''--proxy-headers-host''
            ''--proxy-headers has to be passed for this parameter.'') \<and>
   BuildEndpointDescriptionStrings (Some ''127.0.0.1'') (Some 8000) None None
     \<in> set (fst (run example_world proxy_host_only)) \<and>
   snd (prepare example_world (proxy_host_only\<lparr>verbosity := 4\<rparr>)) = Inl (KeyError 4) \<and>
   snd (run example_world (proxy_host_only\<lparr>verbosity := 4\<rparr>)) = Inl (KeyError 4)"
proof -
  have h: "truthy (proxy_headers_host proxy_host_only)" "\<not> proxy_headers proxy_host_only"
    by (simp_all add: proxy_host_only_def default_args_def truthy_def)
  have h4: "truthy (proxy_headers_host (proxy_host_only\<lparr>verbosity := 4\<rparr>))"
    "\<not> proxy_headers (proxy_host_only\<lparr>verbosity := 4\<rparr>)"
    using h by simp_all
  have b: "set_up_bindings proxy_host_only =
             proxy_host_only\<lparr>host := Some ''127.0.0.1'', port := Some 8000\<rparr>"
    by (simp add: proxy_host_only_def example_defs)
  have p4: "snd (prepare example_world (proxy_host_only\<lparr>verbosity := 4\<rparr>)) = Inl (KeyError 4)"
    by (simp add: prepare_def bind_io_Inl configure_logging_def verbosity_levels_def
        raise_io_def)
  from proxy_headers_host_without_proxy_headers [OF h, of example_world _
      "(Some Stdout, None, PyFunction ''app:instance'', [''tcp:127.0.0.1:8000''])"]
    proxy_headers_host_without_proxy_headers [OF h4, of example_world _ _ "KeyError 4"]
  show ?thesis
    using h proxy_host_only_prepare p4
    by (simp add: b) (simp add: proxy_host_only_def default_args_def)
qed

text \<open>
  C2. When \<^verbatim>\<open>run\<close> finds none of host, port, unix_socket, file_descriptor and endpoint
  strings supplied, it sets the host to 127.0.0.1 and the port to 8000. With the builder
  of the specification, the builder is called with these two and the endpoints are the
  single TCP descriptor of 127.0.0.1 and 8000, which is the list the server receives.
\<close>

theorem nothing_supplied_gives_loopback_8000:
  assumes "\<not> any_binding args"
  shows "host (set_up_bindings args) = Some ''127.0.0.1'' \<and>
         port (set_up_bindings args) = Some 8000 \<and>
         resolve_endpoints (with_builder fmt w) (set_up_bindings args) =
           ([BuildEndpointDescriptionStrings (Some ''127.0.0.1'') (Some 8000)
               (unix_socket args) None],
            Inr [tcp_descriptor fmt ''127.0.0.1'' 8000]) \<and>
         (snd (run (with_builder fmt w) args) = Inr kw \<longrightarrow>
            kw_endpoints kw = [tcp_descriptor fmt ''127.0.0.1'' 8000])"
proof -
  have b: "host (set_up_bindings args) = Some ''127.0.0.1''"
    "port (set_up_bindings args) = Some 8000"
    using assms by (simp_all add: set_up_bindings_def DEFAULT_HOST_def DEFAULT_PORT_def)
  have n: "\<not> truthy (unix_socket args)" "file_descriptor args = None" "socket_strings args = []"
    using assms by (simp_all add: any_binding_def)
  have eps: "BuildEndpointStrings fmt (Some ''127.0.0.1'') (Some 8000) (unix_socket args) None =
               [tcp_descriptor fmt ''127.0.0.1'' 8000]"
    using n by (simp add: BuildEndpointStrings_def truthy_def value_of_def)
  have r: "resolve_endpoints (with_builder fmt w) (set_up_bindings args) =
           ([BuildEndpointDescriptionStrings (Some ''127.0.0.1'') (Some 8000)
               (unix_socket args) None],
            Inr [tcp_descriptor fmt ''127.0.0.1'' 8000])"
    by (simp add: prod_eq_iff fst_resolve_endpoints snd_resolve_endpoints with_builder_build
        b n eps)
  have "kw_endpoints kw = [tcp_descriptor fmt ''127.0.0.1'' 8000]"
    if "snd (run (with_builder fmt w) args) = Inr kw"
    using run_Inr_endpoints [OF that] r by simp
  with b r show ?thesis by simp
qed

theorem nothing_supplied_gives_loopback_8000_witness:
  "\<not> any_binding plain_args \<and>
   host (set_up_bindings plain_args) = Some ''127.0.0.1'' \<and>
   port (set_up_bindings plain_args) = Some 8000 \<and>
   resolve_endpoints example_world (set_up_bindings plain_args) =
     ([BuildEndpointDescriptionStrings (Some ''127.0.0.1'') (Some 8000) None None],
      Inr [''tcp:127.0.0.1:8000'']) \<and>
   snd (run example_world plain_args) = Inr plain_kwargs \<and>
   kw_endpoints plain_kwargs = [''tcp:127.0.0.1:8000'']"
proof -
  have f: "\<not> any_binding plain_args" "unix_socket plain_args = None"
    by (simp_all add: plain_args_def any_binding_def default_args_def truthy_def)
  have t: "tcp_descriptor example_format ''127.0.0.1'' 8000 = ''tcp:127.0.0.1:8000''"
    by (simp add: example_format_def str_of_int_def)
  note T = nothing_supplied_gives_loopback_8000
    [OF f(1), of example_format example_world plain_kwargs, unfolded with_builder_example]
  have 1: "host (set_up_bindings plain_args) = Some ''127.0.0.1''"
    "port (set_up_bindings plain_args) = Some 8000"
    using T by simp_all
  have 2: "resolve_endpoints example_world (set_up_bindings plain_args) =
     ([BuildEndpointDescriptionStrings (Some ''127.0.0.1'') (Some 8000) None None],
      Inr [''tcp:127.0.0.1:8000''])"
    using T f(2) t by simp
  have 3: "kw_endpoints plain_kwargs = [''tcp:127.0.0.1:8000'']"
    using T plain_run t by simp
  show ?thesis
    using f 1 2 3 plain_run by simp
qed

text \<open>
  C3. The endpoints are the endpoint strings of the command line followed by what the
  builder returns for the host, port, socket and descriptor that \<open>set_up_bindings\<close> left,
  sorted in the order of strings. So the list that the server receives is sorted, has
  exactly the elements of the two lists, each as often as it occurs in them, and contains
  every endpoint string of the command line unchanged.
\<close>

theorem endpoints_are_the_sorted_merge:
  "snd (resolve_endpoints w (set_up_bindings args)) =
     (case build_endpoint_description_strings w (host (set_up_bindings args))
             (port (set_up_bindings args)) (unix_socket args) (file_descriptor args) of
        Inl e \<Rightarrow> Inl (Propagated e)
      | Inr derived \<Rightarrow> Inr (sort (socket_strings args @ derived))) \<and>
   (snd (run w args) = Inr kw \<longrightarrow>
      (\<exists>derived.
         build_endpoint_description_strings w (host (set_up_bindings args))
           (port (set_up_bindings args)) (unix_socket args) (file_descriptor args) =
           Inr derived \<and>
         kw_endpoints kw = sort (socket_strings args @ derived) \<and>
         sorted (kw_endpoints kw) \<and>
         mset (kw_endpoints kw) = mset (socket_strings args) + mset derived \<and>
         set (socket_strings args) \<subseteq> set (kw_endpoints kw)))"
proof -
  have s: "snd (resolve_endpoints w (set_up_bindings args)) =
     (case build_endpoint_description_strings w (host (set_up_bindings args))
             (port (set_up_bindings args)) (unix_socket args) (file_descriptor args) of
        Inl e \<Rightarrow> Inl (Propagated e)
      | Inr derived \<Rightarrow> Inr (sort (socket_strings args @ derived)))"
    by (simp add: snd_resolve_endpoints split: sum.splits)
  have "\<exists>derived.
         build_endpoint_description_strings w (host (set_up_bindings args))
           (port (set_up_bindings args)) (unix_socket args) (file_descriptor args) =
           Inr derived \<and>
         kw_endpoints kw = sort (socket_strings args @ derived) \<and>
         sorted (kw_endpoints kw) \<and>
         mset (kw_endpoints kw) = mset (socket_strings args) + mset derived \<and>
         set (socket_strings args) \<subseteq> set (kw_endpoints kw)"
    if "snd (run w args) = Inr kw"
  proof -
    from run_Inr_endpoints [OF that] s
    obtain derived where d:
      "build_endpoint_description_strings w (host (set_up_bindings args))
         (port (set_up_bindings args)) (unix_socket args) (file_descriptor args) = Inr derived"
      "kw_endpoints kw = sort (socket_strings args @ derived)"
      by (auto split: sum.splits)
    then show ?thesis by auto
  qed
  with s show ?thesis by blast
qed

theorem endpoints_are_the_sorted_merge_witness:
  "snd (run example_world with_endpoints) = Inr with_endpoints_kwargs \<and>
   socket_strings with_endpoints = [''unix:/run/daphne.sock'', ''tcp:port=9000''] \<and>
   build_endpoint_description_strings example_world (host (set_up_bindings with_endpoints))
     (port (set_up_bindings with_endpoints)) (unix_socket with_endpoints)
     (file_descriptor with_endpoints) = Inr [''tcp:127.0.0.1:80''] \<and>
   kw_endpoints with_endpoints_kwargs =
     [''tcp:127.0.0.1:80'', ''tcp:port=9000'', ''unix:/run/daphne.sock''] \<and>
   sorted (kw_endpoints with_endpoints_kwargs) \<and>
   mset (kw_endpoints with_endpoints_kwargs) =
     mset (socket_strings with_endpoints) + mset [''tcp:127.0.0.1:80''] \<and>
   set (socket_strings with_endpoints) \<subseteq> set (kw_endpoints with_endpoints_kwargs)"
proof -
  have f: "socket_strings with_endpoints = [''unix:/run/daphne.sock'', ''tcp:port=9000'']"
    by (simp add: with_endpoints_def default_args_def)
  have b: "build_endpoint_description_strings example_world
     (host (set_up_bindings with_endpoints)) (port (set_up_bindings with_endpoints))
     (unix_socket with_endpoints) (file_descriptor with_endpoints) =
     Inr [''tcp:127.0.0.1:80'']"
    by (simp add: example_world_def with_endpoints_def default_args_def set_up_bindings_def
        any_binding_def truthy_def BuildEndpointStrings_def value_of_def example_format_def
        str_of_int_def DEFAULT_HOST_def)
  from endpoints_are_the_sorted_merge [of example_world with_endpoints with_endpoints_kwargs]
    with_endpoints_run
  obtain derived where d:
    "build_endpoint_description_strings example_world (host (set_up_bindings with_endpoints))
       (port (set_up_bindings with_endpoints)) (unix_socket with_endpoints)
       (file_descriptor with_endpoints) = Inr derived"
    "kw_endpoints with_endpoints_kwargs = sort (socket_strings with_endpoints @ derived)"
    "sorted (kw_endpoints with_endpoints_kwargs)"
    "mset (kw_endpoints with_endpoints_kwargs) = mset (socket_strings with_endpoints) + mset derived"
    "set (socket_strings with_endpoints) \<subseteq> set (kw_endpoints with_endpoints_kwargs)"
    by blast
  from d(1) b have e: "derived = [''tcp:127.0.0.1:80'']"
    by simp
  have k: "kw_endpoints with_endpoints_kwargs =
     [''tcp:127.0.0.1:80'', ''tcp:port=9000'', ''unix:/run/daphne.sock'']"
    using d(2) by (simp only: e f with_endpoints_sorted)
  show ?thesis
    using with_endpoints_run f b k d(3,4,5) unfolding e by blast
qed



text \<open>
  C5. With \<^verbatim>\<open>--proxy-headers\<close> passed and neither of the two header options holding a
  non-empty value, the three header names are X-Forwarded-For, X-Forwarded-Port and
  X-Forwarded-Proto; with \<^verbatim>\<open>--proxy-headers\<close> not passed, all three are absent. These
  are the names that a run which reaches the server hands to it.
\<close>

theorem proxy_headers_alone_gives_conventional_names:
  assumes "\<not> truthy (proxy_headers_host args)" and "\<not> truthy (proxy_headers_port args)"
  shows "(proxy_headers args \<longrightarrow>
            get_forwarded_host args = Inr (Some ''X-Forwarded-For'') \<and>
            get_forwarded_port args = Inr (Some ''X-Forwarded-Port'') \<and>
            forwarded_proto args = Some ''X-Forwarded-Proto'') \<and>
         (\<not> proxy_headers args \<longrightarrow>
            get_forwarded_host args = Inr None \<and>
            get_forwarded_port args = Inr None \<and>
            forwarded_proto args = None) \<and>
         (snd (run w args) = Inr kw \<longrightarrow>
            Inr (kw_proxy_forwarded_address_header kw) = get_forwarded_host args \<and>
            Inr (kw_proxy_forwarded_port_header kw) = get_forwarded_port args \<and>
            kw_proxy_forwarded_proto_header kw = forwarded_proto args)"
proof -
  have "get_forwarded_host args = Inr (if proxy_headers args then Some ''X-Forwarded-For'' else None)"
    using assms by (simp add: get_forwarded_host_def)
  moreover have "get_forwarded_port args = Inr (if proxy_headers args then Some ''X-Forwarded-Port'' else None)"
    using assms by (simp add: get_forwarded_port_def)
  moreover have "forwarded_proto args = (if proxy_headers args then Some ''X-Forwarded-Proto'' else None)"
    by (simp add: forwarded_proto_def)
  moreover have "Inr (kw_proxy_forwarded_address_header kw) = get_forwarded_host args \<and>
            Inr (kw_proxy_forwarded_port_header kw) = get_forwarded_port args \<and>
            kw_proxy_forwarded_proto_header kw = forwarded_proto args"
    if "snd (run w args) = Inr kw"
    using that by (auto simp: run_Inr dest!: server_arguments_Inr)
  ultimately show ?thesis by simp
qed

theorem proxy_headers_alone_gives_conventional_names_witness:
  "\<not> truthy (proxy_headers_host proxy_headers_only) \<and>
   \<not> truthy (proxy_headers_port proxy_headers_only) \<and>
   proxy_headers proxy_headers_only \<and>
   get_forwarded_host proxy_headers_only = Inr (Some ''X-Forwarded-For'') \<and>
   get_forwarded_port proxy_headers_only = Inr (Some ''X-Forwarded-Port'') \<and>
   forwarded_proto proxy_headers_only = Some ''X-Forwarded-Proto'' \<and>
   snd (run example_world proxy_headers_only) = Inr proxy_headers_kwargs \<and>
   kw_proxy_forwarded_address_header proxy_headers_kwargs = Some ''X-Forwarded-For'' \<and>
   kw_proxy_forwarded_port_header proxy_headers_kwargs = Some ''X-Forwarded-Port'' \<and>
   kw_proxy_forwarded_proto_header proxy_headers_kwargs = Some ''X-Forwarded-Proto'' \<and>
   \<not> truthy (proxy_headers_host plain_args) \<and>
   \<not> truthy (proxy_headers_port plain_args) \<and>
   \<not> proxy_headers plain_args \<and>
   get_forwarded_host plain_args = Inr None \<and>
   get_forwarded_port plain_args = Inr None \<and>
   forwarded_proto plain_args = None \<and>
   snd (run example_world plain_args) = Inr plain_kwargs \<and>
   kw_proxy_forwarded_address_header plain_kwargs = None \<and>
   kw_proxy_forwarded_port_header plain_kwargs = None \<and>
   kw_proxy_forwarded_proto_header plain_kwargs = None"
proof -
  have h: "\<not> truthy (proxy_headers_host proxy_headers_only)"
    "\<not> truthy (proxy_headers_port proxy_headers_only)"
    and p: "proxy_headers proxy_headers_only"
    by (simp_all add: proxy_headers_only_def default_args_def truthy_def)
  have h': "\<not> truthy (proxy_headers_host plain_args)"
    "\<not> truthy (proxy_headers_port plain_args)"
    and p': "\<not> proxy_headers plain_args"
    by (simp_all add: plain_args_def default_args_def truthy_def)
  note on = proxy_headers_alone_gives_conventional_names
    [OF h, of example_world proxy_headers_kwargs]
  note off = proxy_headers_alone_gives_conventional_names
    [OF h', of example_world plain_kwargs]
  have 1: "get_forwarded_host proxy_headers_only = Inr (Some ''X-Forwarded-For'')"
    "get_forwarded_port proxy_headers_only = Inr (Some ''X-Forwarded-Port'')"
    "forwarded_proto proxy_headers_only = Some ''X-Forwarded-Proto''"
    using on p by blast+
  have 2: "Inr (kw_proxy_forwarded_address_header proxy_headers_kwargs) =
             get_forwarded_host proxy_headers_only"
    "Inr (kw_proxy_forwarded_port_header proxy_headers_kwargs) =
             get_forwarded_port proxy_headers_only"
    "kw_proxy_forwarded_proto_header proxy_headers_kwargs = forwarded_proto proxy_headers_only"
    using on proxy_headers_only_run by blast+
  have 3: "get_forwarded_host plain_args = Inr None"
    "get_forwarded_port plain_args = Inr None"
    "forwarded_proto plain_args = None"
    using off p' by blast+
  have 4: "Inr (kw_proxy_forwarded_address_header plain_kwargs) = get_forwarded_host plain_args"
    "Inr (kw_proxy_forwarded_port_header plain_kwargs) = get_forwarded_port plain_args"
    "kw_proxy_forwarded_proto_header plain_kwargs = forwarded_proto plain_args"
    using off plain_run by blast+
  show ?thesis
    using h p h' p' 1 2 3 4 proxy_headers_only_run plain_run by simp
qed

text \<open>
  C6. A destination \<^verbatim>\<open>-\<close> selects standard output; any other non-empty destination is
  opened with \<^verbatim>\<open>open(path, "a", 1)\<close>, that is for appending and line buffered, and the
  file is the sink when the call succeeds; with no destination the sink is standard output
  for a verbosity of 1 or more and there is none for verbosity 0. The sink so chosen is the
  one that the server receives.
\<close>

theorem access_log_sink:
  "(access_log args = Some ''-'' \<longrightarrow> open_access_log w args = ([], Inr (Some Stdout))) \<and>
   (access_log args = Some p \<and> p \<noteq> [] \<and> p \<noteq> ''-'' \<longrightarrow>
      open_access_log w args =
        ([Open p ''a'' 1],
         (case os_open w p of
            None \<Rightarrow> Inr (Some (File p))
          | Some e \<Rightarrow> Inl (Propagated e)))) \<and>
   (access_log args = None \<and> 1 \<le> verbosity args \<longrightarrow>
      open_access_log w args = ([], Inr (Some Stdout))) \<and>
   (access_log args = None \<and> verbosity args = 0 \<longrightarrow>
      open_access_log w args = ([], Inr None)) \<and>
   (snd (run w args) = Inr kw \<longrightarrow> snd (open_access_log w args) = Inr (kw_action_logger kw))"
proof -
  have "open_access_log w args =
        ([Open p ''a'' 1],
         (case os_open w p of
            None \<Rightarrow> Inr (Some (File p))
          | Some e \<Rightarrow> Inl (Propagated e)))"
    if "access_log args = Some p" "p \<noteq> []" "p \<noteq> ''-''"
    using that
    by (simp add: open_access_log_def truthy_def value_of_def perform_def split: option.splits)
  then show ?thesis
    using run_Inr_action_logger [of w args kw]
    by (simp add: open_access_log_def truthy_def return_io_def)
qed

theorem access_log_sink_witness:
  "access_log access_log_dash = Some ''-'' \<and>
   open_access_log example_world access_log_dash = ([], Inr (Some Stdout)) \<and>
   access_log access_log_file = Some ''/var/log/daphne.log'' \<and>
   open_access_log example_world access_log_file =
     ([Open ''/var/log/daphne.log'' ''a'' 1], Inr (Some (File ''/var/log/daphne.log''))) \<and>
   access_log plain_args = None \<and> 1 \<le> verbosity plain_args \<and>
   open_access_log example_world plain_args = ([], Inr (Some Stdout)) \<and>
   access_log quiet_args = None \<and> verbosity quiet_args = 0 \<and>
   open_access_log example_world quiet_args = ([], Inr None) \<and>
   snd (run example_world plain_args) = Inr plain_kwargs \<and>
   kw_action_logger plain_kwargs = Some Stdout"
proof -
  have f: "access_log access_log_dash = Some ''-''"
    "access_log access_log_file = Some ''/var/log/daphne.log''"
    "access_log plain_args = None" "1 \<le> verbosity plain_args"
    "access_log quiet_args = None" "verbosity quiet_args = 0"
    by (simp_all add: access_log_dash_def access_log_file_def plain_args_def quiet_args_def
        default_args_def)
  have o: "os_open example_world ''/var/log/daphne.log'' = None"
    by (simp add: example_world_def)
  have 1: "open_access_log example_world access_log_dash = ([], Inr (Some Stdout))"
    using access_log_sink [of access_log_dash example_world] f by blast
  have 2: "open_access_log example_world access_log_file =
     ([Open ''/var/log/daphne.log'' ''a'' 1], Inr (Some (File ''/var/log/daphne.log'')))"
    using access_log_sink [of access_log_file example_world "''/var/log/daphne.log''"] f o
    by simp
  have 3: "open_access_log example_world plain_args = ([], Inr (Some Stdout))"
    using access_log_sink [of plain_args example_world] f by blast
  have 4: "open_access_log example_world quiet_args = ([], Inr None)"
    using access_log_sink [of quiet_args example_world] f by blast
  have 5: "snd (open_access_log example_world plain_args) = Inr (kw_action_logger plain_kwargs)"
    using access_log_sink [of plain_args example_world _ plain_kwargs] plain_run by blast
  show ?thesis
    using f 1 2 3 4 5 plain_run by simp
qed

text \<open>
  C7, as the code has it. With a non-empty host and no port, \<^verbatim>\<open>run\<close> sets the port to
  8000 and leaves the host; with a port and no host, or the empty string as the host, it
  sets the host to 127.0.0.1 and leaves the port. These are the host and the port of the
  only call of the endpoint builder that a run makes, a run whose earlier steps succeed
  makes that call, and the endpoints that the server receives are built from them.
\<close>

theorem missing_host_or_port_is_defaulted:
  "(truthy (host args) \<and> port args = None \<longrightarrow>
      host (set_up_bindings args) = host args \<and>
      port (set_up_bindings args) = Some 8000 \<and>
      (BuildEndpointDescriptionStrings h q u f \<in> set (fst (run w args)) \<longrightarrow>
         h = host args \<and> q = Some 8000) \<and>
      (snd (prepare w args) = Inr x \<longrightarrow>
         BuildEndpointDescriptionStrings (host args) (Some 8000) (unix_socket args)
           (file_descriptor args) \<in> set (fst (run w args))) \<and>
      (snd (run w args) = Inr kw \<longrightarrow>
         (\<exists>derived.
            build_endpoint_description_strings w (host args) (Some 8000) (unix_socket args)
              (file_descriptor args) = Inr derived \<and>
            kw_endpoints kw = sort (socket_strings args @ derived)))) \<and>
   (port args = Some p \<and> \<not> truthy (host args) \<longrightarrow>
      host (set_up_bindings args) = Some ''127.0.0.1'' \<and>
      port (set_up_bindings args) = Some p \<and>
      (BuildEndpointDescriptionStrings h q u f \<in> set (fst (run w args)) \<longrightarrow>
         h = Some ''127.0.0.1'' \<and> q = Some p) \<and>
      (snd (prepare w args) = Inr x \<longrightarrow>
         BuildEndpointDescriptionStrings (Some ''127.0.0.1'') (Some p) (unix_socket args)
           (file_descriptor args) \<in> set (fst (run w args))) \<and>
      (snd (run w args) = Inr kw \<longrightarrow>
         (\<exists>derived.
            build_endpoint_description_strings w (Some ''127.0.0.1'') (Some p)
              (unix_socket args) (file_descriptor args) = Inr derived \<and>
            kw_endpoints kw = sort (socket_strings args @ derived))))"
proof -
  have a: "host (set_up_bindings args) = host args \<and> port (set_up_bindings args) = Some 8000"
    if "truthy (host args)" "port args = None"
    using that by (simp add: set_up_bindings_def any_binding_def DEFAULT_PORT_def)
  have b: "host (set_up_bindings args) = Some ''127.0.0.1'' \<and> port (set_up_bindings args) = Some p"
    if "port args = Some p" "\<not> truthy (host args)"
    using that
    by (simp add: set_up_bindings_def any_binding_def DEFAULT_HOST_def DEFAULT_PORT_def)
  show ?thesis
    using a b Build_in_run [of h q u f w args] resolve_endpoints_in_run [of w args x]
      run_Inr_derived [of w args kw]
    by auto
qed

text \<open>
  C7, as stated, fails on \<^verbatim>\<open>-b "" -u /run/daphne.sock app:instance\<close>: a host is
  given and no port, the test of line 285 is false for the empty string, and the run
  calls the endpoint builder with no port and starts the server on the socket alone.
\<close>

theorem empty_host_keeps_port_unset_counterexample:
  "host empty_host_unix = Some [] \<and> port empty_host_unix = None \<and>
   port (set_up_bindings empty_host_unix) = None \<and>
   BuildEndpointDescriptionStrings (Some []) None (Some ''/run/daphne.sock'') None
     \<in> set (fst (run example_world empty_host_unix)) \<and>
   snd (run example_world empty_host_unix) = Inr empty_host_unix_kwargs \<and>
   kw_endpoints empty_host_unix_kwargs = [''unix:/run/daphne.sock'']"
proof -
  have "BuildEndpointDescriptionStrings (Some []) None (Some ''/run/daphne.sock'') None
     \<in> set (fst (run example_world empty_host_unix))"
    using resolve_endpoints_in_run [OF empty_host_unix_prepare]
    by (simp add: empty_host_unix_bindings empty_host_unix_facts)
  then show ?thesis
    using empty_host_unix_facts(1,2) empty_host_unix_bindings(2) empty_host_unix_run
    by (simp add: empty_host_unix_kwargs_def)
qed

theorem missing_host_or_port_is_defaulted_witness:
  "truthy (host bind_only) \<and> port bind_only = None \<and>
   host (set_up_bindings bind_only) = Some ''0.0.0.0'' \<and>
   port (set_up_bindings bind_only) = Some 8000 \<and>
   snd (prepare example_world bind_only) =
     Inr (Some Stdout, None, PyFunction ''app:instance'', [''tcp:0.0.0.0:8000'']) \<and>
   BuildEndpointDescriptionStrings (Some ''0.0.0.0'') (Some 8000) None None
     \<in> set (fst (run example_world bind_only)) \<and>
   snd (run example_world bind_only) = Inr bind_only_kwargs \<and>
   build_endpoint_description_strings example_world (Some ''0.0.0.0'') (Some 8000) None None =
     Inr [''tcp:0.0.0.0:8000''] \<and>
   kw_endpoints bind_only_kwargs = [''tcp:0.0.0.0:8000''] \<and>
   port port_only = Some 9000 \<and> \<not> truthy (host port_only) \<and>
   host (set_up_bindings port_only) = Some ''127.0.0.1'' \<and>
   port (set_up_bindings port_only) = Some 9000 \<and>
   snd (prepare example_world port_only) =
     Inr (Some Stdout, None, PyFunction ''app:instance'', [''tcp:127.0.0.1:9000'']) \<and>
   BuildEndpointDescriptionStrings (Some ''127.0.0.1'') (Some 9000) None None
     \<in> set (fst (run example_world port_only)) \<and>
   snd (run example_world port_only) = Inr port_only_kwargs \<and>
   build_endpoint_description_strings example_world (Some ''127.0.0.1'') (Some 9000) None None =
     Inr [''tcp:127.0.0.1:9000''] \<and>
   kw_endpoints port_only_kwargs = [''tcp:127.0.0.1:9000'']"
proof -
  note fb = bind_only_facts and fp = port_only_facts
  note B = missing_host_or_port_is_defaulted
    [of bind_only "Some ''0.0.0.0''" "Some 8000" None None example_world
      "(Some Stdout, None, PyFunction ''app:instance'', [''tcp:0.0.0.0:8000''])"
      bind_only_kwargs 0]
  note P = missing_host_or_port_is_defaulted
    [of port_only "Some ''127.0.0.1''" "Some 9000" None None example_world
      "(Some Stdout, None, PyFunction ''app:instance'', [''tcp:127.0.0.1:9000''])"
      port_only_kwargs 9000]
  have b1: "host (set_up_bindings bind_only) = Some ''0.0.0.0''"
    "port (set_up_bindings bind_only) = Some 8000"
    using B fb(1-3) by simp_all
  have b2: "BuildEndpointDescriptionStrings (Some ''0.0.0.0'') (Some 8000) None None
     \<in> set (fst (run example_world bind_only))"
    using B fb(1-5) bind_only_prepare by simp
  have b3: "build_endpoint_description_strings example_world (Some ''0.0.0.0'') (Some 8000)
      None None = Inr [''tcp:0.0.0.0:8000'']"
    by (simp add: example_world_def bind_only_build)
  from B fb(1-6) bind_only_run b3
  have b4: "kw_endpoints bind_only_kwargs = [''tcp:0.0.0.0:8000'']"
    by simp
  have p1: "host (set_up_bindings port_only) = Some ''127.0.0.1''"
    "port (set_up_bindings port_only) = Some 9000"
    using P fp(1,2) by simp_all
  have p2: "BuildEndpointDescriptionStrings (Some ''127.0.0.1'') (Some 9000) None None
     \<in> set (fst (run example_world port_only))"
    using P fp(1-4) port_only_prepare by simp
  have p3: "build_endpoint_description_strings example_world (Some ''127.0.0.1'') (Some 9000)
      None None = Inr [''tcp:127.0.0.1:9000'']"
    by (simp add: example_world_def port_only_build)
  from P fp(1-5) port_only_run p3
  have p4: "kw_endpoints port_only_kwargs = [''tcp:127.0.0.1:9000'']"
    by simp
  show ?thesis
    using fb(1,2) fp(1,2) b1 b2 b3 b4 p1 p2 p3 p4 bind_only_prepare bind_only_run
      port_only_prepare port_only_run
    by simp
qed

text \<open>
  C8. In a run that imports the callback module, when the module has a true
  \<^verbatim>\<open>when_init\<close> attribute, that object is called with no arguments, nothing is called
  before or after it, and the application is not imported before the call: when the call
  returns, the import of the application follows at once. Whatever the module has, the
  only call that the run makes is this one, so that without a true \<^verbatim>\<open>when_init\<close> it
  calls nothing, and it never calls what it reads from \<^verbatim>\<open>when_ready\<close> (unless that
  is the very object that \<^verbatim>\<open>when_init\<close> holds); a run that reaches the server hands
  the \<^verbatim>\<open>when_ready\<close> attribute over as \<^verbatim>\<open>ready_callable\<close>.
\<close>

theorem when_init_runs_before_application_load:
  assumes "ImportModule name \<in> set (fst (run w args))"
    and "import_module w name = Inr m"
  shows "(m ''when_init'' = Some hook \<and> py_bool (Some hook) \<longrightarrow>
           (\<exists>pre post.
              fst (run w args) = pre @ Call hook [] # post \<and>
              (\<forall>p. ImportByPath p \<notin> set pre) \<and>
              (\<forall>g xs. Call g xs \<notin> set pre) \<and>
              (\<forall>g xs. Call g xs \<notin> set post) \<and>
              (snd (call0 w hook) = Inr () \<longrightarrow>
                 (\<exists>rest. post = SysPathInsert 0 ''.'' # ImportByPath (application args) # rest)) \<and>
              (\<forall>kw. snd (run w args) = Inr kw \<longrightarrow>
                 kw_ready_callable kw = m ''when_ready'' \<and> ServerInit kw \<in> set post))) \<and>
         (Call g xs \<in> set (fst (run w args)) \<longrightarrow>
            xs = [] \<and> m ''when_init'' = Some g \<and> py_bool (Some g)) \<and>
         (\<not> py_bool (m ''when_init'') \<longrightarrow> Call g xs \<notin> set (fst (run w args))) \<and>
         (m ''when_ready'' = Some ready \<and> m ''when_init'' \<noteq> Some ready \<longrightarrow>
            Call ready xs \<notin> set (fst (run w args))) \<and>
         (snd (run w args) = Inr kw \<longrightarrow>
            kw_ready_callable kw = m ''when_ready'' \<and> ServerInit kw \<in> set (fst (run w args)))"
proof -
  from import_module_reached [OF assms(1)] obtain s where
    s1: "snd (configure_logging args) = Inr ()" and
    s2: "snd (open_access_log w args) = Inr s" and
    s3: "snd (change_directory w args) = Inr ()" and
    cm: "callback_module args = Some name"
    by blast
  have s4: "load_callback_module w args =
              ([Print (''Looking for module: '' @ name), ImportModule name], Inr (Some m))"
    by (simp add: load_callback_module_def cm assms(2) bind_io_def emit_def perform_def
        return_io_def)
  have A: "\<exists>pre post.
              fst (run w args) = pre @ Call hook [] # post \<and>
              (\<forall>p. ImportByPath p \<notin> set pre) \<and>
              (\<forall>g xs. Call g xs \<notin> set pre) \<and>
              (\<forall>g xs. Call g xs \<notin> set post) \<and>
              (snd (call0 w hook) = Inr () \<longrightarrow>
                 (\<exists>rest. post = SysPathInsert 0 ''.'' # ImportByPath (application args) # rest)) \<and>
              (\<forall>kw. snd (run w args) = Inr kw \<longrightarrow>
                 kw_ready_callable kw = m ''when_ready'' \<and> ServerInit kw \<in> set post)"
    if h: "m ''when_init'' = Some hook" "py_bool (Some hook)"
  proof -
    have s5: "run_when_init w (Some m) = call0 w hook"
      by (simp add: run_when_init_def getattr_def h)
    have c: "fst (call0 w hook) = [Call hook []]"
      by (simp add: call0_def perform_def)
    define pre where "pre =
      fst (configure_logging args) @ fst (open_access_log w args) @
      fst (change_directory w args) @ fst (load_callback_module w args)"
    define rest_of_run where "rest_of_run =
      bind_io (load_application w args) (\<lambda>app.
      bind_io (resolve_endpoints w (set_up_bindings args)) (\<lambda>endpoints.
      start_server (set_up_bindings args) (Some m) app endpoints s))"
    define post where "post =
      (case snd (call0 w hook) of Inl e \<Rightarrow> [] | Inr u \<Rightarrow> fst rest_of_run)"
    have tr: "fst (run w args) = pre @ Call hook [] # post"
      by (simp add: run_def fst_bind_io s1 s2 s3 s4 s5 c pre_def post_def rest_of_run_def
          split: sum.splits)
    have sn: "snd (run w args) =
                (case snd (call0 w hook) of Inl e \<Rightarrow> Inl e | Inr u \<Rightarrow> snd rest_of_run)"
      by (simp add: run_def bind_io_def s1 s2 s3 s4 s5 rest_of_run_def split: sum.splits)
    have pre_events: "(\<exists>l f. ev = BasicConfig l f) \<or> (\<exists>p a b. ev = Open p a b) \<or>
        (\<exists>x. ev = Print x) \<or> (\<exists>d. ev = Chdir d) \<or> ev = Getcwd \<or> (\<exists>n. ev = ImportModule n)"
      if "ev \<in> set pre" for ev
      using that unfolding pre_def
      by (auto dest: events_configure_logging events_open_access_log events_change_directory
          events_load_callback_module)
    have p1: "\<forall>p. ImportByPath p \<notin> set pre" and p2: "\<forall>g xs. Call g xs \<notin> set pre"
      by (auto dest: pre_events)
    have rest_events: "(\<exists>i p. ev = SysPathInsert i p) \<or> (\<exists>p. ev = ImportByPath p) \<or>
        (\<exists>f. ev = GuaranteeSingleCallable f) \<or> (\<exists>h p u f. ev = BuildEndpointDescriptionStrings h p u f) \<or>
        (\<exists>x. ev = LoggerInfo x) \<or> ev = ServerRun \<or> (\<exists>kw. ev = ServerInit kw)"
      if "ev \<in> set (fst rest_of_run)" for ev
      using that unfolding rest_of_run_def
      by (auto dest!: in_bind_io simp: fst_resolve_endpoints
          dest: events_load_application events_start_server)
    have p3: "\<forall>g xs. Call g xs \<notin> set post"
      unfolding post_def by (auto split: sum.splits dest: rest_events)
    have p4: "\<exists>rest. post = SysPathInsert 0 ''.'' # ImportByPath (application args) # rest"
      if "snd (call0 w hook) = Inr ()"
      using that by (simp add: post_def rest_of_run_def fst_bind_io fst_load_application)
    have p5: "kw_ready_callable kw = m ''when_ready'' \<and> ServerInit kw \<in> set post"
      if k: "snd (run w args) = Inr kw" for kw
    proof -
      from k sn have ok: "snd (call0 w hook) = Inr ()" and r: "snd rest_of_run = Inr kw"
        by (auto split: sum.splits)
      from r obtain app eps where
        a: "snd (load_application w args) = Inr app" and
        e: "snd (resolve_endpoints w (set_up_bindings args)) = Inr eps" and
        sa: "server_arguments (set_up_bindings args) app eps s (getattr (Some m) ''when_ready'') =
               Inr kw"
        unfolding rest_of_run_def by (auto simp: snd_bind_io_Inr snd_start_server)
      have "kw_ready_callable kw = m ''when_ready''"
        using server_arguments_Inr [OF sa] by (simp add: getattr_def)
      moreover have "ServerInit kw \<in> set (fst rest_of_run)"
        by (simp add: rest_of_run_def fst_bind_io a e fst_start_server sa)
      ultimately show ?thesis
        using ok by (simp add: post_def)
    qed
    from tr p1 p2 p3 p4 p5 show ?thesis by blast
  qed
  have B: "ys = [] \<and> m ''when_init'' = Some c \<and> py_bool (Some c)"
    if "Call c ys \<in> set (fst (run w args))" for c ys
  proof -
    from that have "Call c ys \<in> set (fst (prepare w args))"
      by (auto dest: events_run)
    then have "Call c ys \<in> set (fst (run_when_init w (Some m)))"
      by (auto dest!: events_prepare_steps simp: fst_resolve_endpoints s4
          dest: events_configure_logging events_open_access_log events_change_directory
            events_load_application)
    then show ?thesis
      by (auto dest!: events_run_when_init simp: getattr_def)
  qed
  have C: "kw_ready_callable kw = m ''when_ready'' \<and> ServerInit kw \<in> set (fst (run w args))"
    if "snd (run w args) = Inr kw"
  proof -
    from that obtain s' cb app eps where
      p: "snd (prepare w args) = Inr (s', cb, app, eps)" and
      sa: "server_arguments (set_up_bindings args) app eps s' (getattr cb ''when_ready'') =
             Inr kw"
      by (auto simp: run_Inr)
    from p have "snd (load_callback_module w args) = Inr cb"
      by (simp add: prepare_Inr)
    then have cb: "cb = Some m"
      by (simp add: s4)
    have "kw_ready_callable kw = m ''when_ready''"
      using server_arguments_Inr [OF sa] by (simp add: cb getattr_def)
    moreover have "ServerInit kw \<in> set (fst (run w args))"
      by (simp add: fst_run p fst_start_server sa)
    ultimately show ?thesis by simp
  qed
  have D: "Call g xs \<notin> set (fst (run w args))" if "\<not> py_bool (m ''when_init'')"
    using that B [of g xs] by auto
  have E: "Call ready xs \<notin> set (fst (run w args))" if "m ''when_init'' \<noteq> Some ready"
    using that B [of ready xs] by auto
  from A B [of g xs] C D E show ?thesis by blast
qed

theorem when_init_runs_before_application_load_witness:
  "ImportModule ''hooks'' \<in> set (fst (run example_world with_hooks)) \<and>
   import_module example_world ''hooks'' = Inr hooks_module \<and>
   hooks_module ''when_init'' = Some (PyFunction ''hooks.when_init'') \<and>
   py_bool (Some (PyFunction ''hooks.when_init'')) \<and>
   snd (call0 example_world (PyFunction ''hooks.when_init'')) = Inr () \<and>
   snd (run example_world with_hooks) = Inr with_hooks_kwargs \<and>
   hooks_module ''when_ready'' = Some (PyFunction ''hooks.when_ready'') \<and>
   hooks_module ''when_init'' \<noteq> Some (PyFunction ''hooks.when_ready'') \<and>
   kw_ready_callable with_hooks_kwargs = Some (PyFunction ''hooks.when_ready'') \<and>
   (\<exists>pre rest.
      fst (run example_world with_hooks) =
        pre @ Call (PyFunction ''hooks.when_init'') [] #
        SysPathInsert 0 ''.'' # ImportByPath ''app:instance'' # rest \<and>
      (\<forall>p. ImportByPath p \<notin> set pre) \<and>
      (\<forall>g xs. Call g xs \<notin> set pre) \<and>
      (\<forall>g xs. Call g xs \<notin> set rest) \<and>
      ServerInit with_hooks_kwargs \<in> set rest) \<and>
   Call (PyFunction ''hooks.when_init'') [] \<in> set (fst (run example_world with_hooks)) \<and>
   Call (PyFunction ''hooks.when_ready'') [] \<notin> set (fst (run example_world with_hooks)) \<and>
   ServerInit with_hooks_kwargs \<in> set (fst (run example_world with_hooks)) \<and>
   ImportModule ''ready_only'' \<in> set (fst (run example_world with_ready_only)) \<and>
   import_module example_world ''ready_only'' = Inr ready_only_module \<and>
   \<not> py_bool (ready_only_module ''when_init'') \<and>
   ready_only_module ''when_ready'' = Some (PyFunction ''ready_only.when_ready'') \<and>
   ready_only_module ''when_init'' \<noteq> Some (PyFunction ''ready_only.when_ready'') \<and>
   Call (PyFunction ''ready_only.when_ready'') [] \<notin>
     set (fst (run example_world with_ready_only)) \<and>
   snd (run example_world with_ready_only) = Inr with_ready_only_kwargs \<and>
   kw_ready_callable with_ready_only_kwargs = Some (PyFunction ''ready_only.when_ready'') \<and>
   ServerInit with_ready_only_kwargs \<in> set (fst (run example_world with_ready_only))"
proof -
  have f: "import_module example_world ''hooks'' = Inr hooks_module"
    "hooks_module ''when_init'' = Some (PyFunction ''hooks.when_init'')"
    "py_bool (Some (PyFunction ''hooks.when_init''))"
    "hooks_module ''when_ready'' = Some (PyFunction ''hooks.when_ready'')"
    "application with_hooks = ''app:instance''"
    "hooks_module ''when_init'' \<noteq> Some (PyFunction ''hooks.when_ready'')"
    by (simp_all add: example_world_def hooks_module_def py_bool_def with_hooks_def
        default_args_def)
  have r: "import_module example_world ''ready_only'' = Inr ready_only_module"
    "\<not> py_bool (ready_only_module ''when_init'')"
    "ready_only_module ''when_ready'' = Some (PyFunction ''ready_only.when_ready'')"
    "ready_only_module ''when_init'' \<noteq> Some (PyFunction ''ready_only.when_ready'')"
    by (simp_all add: example_world_def ready_only_module_def py_bool_def)
  have c: "snd (call0 example_world (PyFunction ''hooks.when_init'')) = Inr ()"
    by (simp add: call0_def perform_def unit_result_def example_world_def)
  note H = when_init_runs_before_application_load
    [OF with_hooks_imports f(1),
      where hook = "PyFunction ''hooks.when_init''" and g = "PyFunction ''hooks.when_init''"
        and xs = "[]" and ready = "PyFunction ''hooks.when_ready''" and kw = with_hooks_kwargs]
  note R = when_init_runs_before_application_load
    [OF with_ready_only_imports r(1),
      where g = "PyFunction ''ready_only.when_ready''" and xs = "[]"
        and ready = "PyFunction ''ready_only.when_ready''" and kw = with_ready_only_kwargs]
  from H f(2,3)
  obtain pre post where t:
    "fst (run example_world with_hooks) = pre @ Call (PyFunction ''hooks.when_init'') [] # post"
    "\<forall>p. ImportByPath p \<notin> set pre" "\<forall>g xs. Call g xs \<notin> set pre"
    "\<forall>g xs. Call g xs \<notin> set post"
    "snd (call0 example_world (PyFunction ''hooks.when_init'')) = Inr () \<longrightarrow>
       (\<exists>rest. post = SysPathInsert 0 ''.'' # ImportByPath (application with_hooks) # rest)"
    "\<forall>kw. snd (run example_world with_hooks) = Inr kw \<longrightarrow>
       kw_ready_callable kw = hooks_module ''when_ready'' \<and> ServerInit kw \<in> set post"
    by blast
  from t(5) c f(5) obtain rest where
    rest: "post = SysPathInsert 0 ''.'' # ImportByPath ''app:instance'' # rest"
    by auto
  from t(6) with_hooks_run have k: "ServerInit with_hooks_kwargs \<in> set post"
    by blast
  have 1: "\<forall>g xs. Call g xs \<notin> set rest"
    using t(4) rest by simp
  have 2: "ServerInit with_hooks_kwargs \<in> set rest"
    using k rest by simp
  have 3: "fst (run example_world with_hooks) =
        pre @ Call (PyFunction ''hooks.when_init'') [] #
        SysPathInsert 0 ''.'' # ImportByPath ''app:instance'' # rest"
    using t(1) rest by simp
  from 3 t(2,3) 1 2 have 4: "\<exists>pre rest.
      fst (run example_world with_hooks) =
        pre @ Call (PyFunction ''hooks.when_init'') [] #
        SysPathInsert 0 ''.'' # ImportByPath ''app:instance'' # rest \<and>
      (\<forall>p. ImportByPath p \<notin> set pre) \<and>
      (\<forall>g xs. Call g xs \<notin> set pre) \<and>
      (\<forall>g xs. Call g xs \<notin> set rest) \<and>
      ServerInit with_hooks_kwargs \<in> set rest"
    by blast
  have 5: "Call (PyFunction ''hooks.when_init'') [] \<in> set (fst (run example_world with_hooks))"
    using t(1) by simp
  have 6: "Call (PyFunction ''hooks.when_ready'') [] \<notin> set (fst (run example_world with_hooks))"
    using H f(4,6) by blast
  have 7: "kw_ready_callable with_hooks_kwargs = hooks_module ''when_ready''"
    "ServerInit with_hooks_kwargs \<in> set (fst (run example_world with_hooks))"
    using H with_hooks_run by blast+
  have 8: "Call (PyFunction ''ready_only.when_ready'') [] \<notin>
     set (fst (run example_world with_ready_only))"
    using R r(2) by blast
  have 9: "kw_ready_callable with_ready_only_kwargs = ready_only_module ''when_ready''"
    "ServerInit with_ready_only_kwargs \<in> set (fst (run example_world with_ready_only))"
    using R with_ready_only_run by blast+
  show ?thesis
    using with_hooks_imports f(1-4,6) c with_hooks_run 4 5 6 7 with_ready_only_imports r 8 9
      with_ready_only_run
    by simp
qed



text \<open>
  C10. An empty string as the value of \<^verbatim>\<open>--proxy-headers-host\<close> or of
  \<^verbatim>\<open>--proxy-headers-port\<close> is read as the option not being given: the header name is the
  conventional one when \<^verbatim>\<open>--proxy-headers\<close> is passed and absent otherwise, and when
  neither option holds a non-empty value no run ends with an \<^verbatim>\<open>ArgumentError\<close>.
\<close>

theorem empty_proxy_header_option_is_absent:
  "(proxy_headers_host args = Some [] \<longrightarrow>
      get_forwarded_host args =
        Inr (if proxy_headers args then Some ''X-Forwarded-For'' else None)) \<and>
   (proxy_headers_port args = Some [] \<longrightarrow>
      get_forwarded_port args =
        Inr (if proxy_headers args then Some ''X-Forwarded-Port'' else None)) \<and>
   (\<not> truthy (proxy_headers_host args) \<and> \<not> truthy (proxy_headers_port args) \<longrightarrow>
      snd (run w args) \<noteq> Inl (ArgumentError a m))"
proof -
  have "snd (run w args) \<noteq> Inl (ArgumentError a m)"
    if "\<not> truthy (proxy_headers_host args)" "\<not> truthy (proxy_headers_port args)"
  proof (cases "snd (prepare w args)")
    case (Inl e)
    then show ?thesis
      using prepare_no_ArgumentError [of w args a m] by (auto simp: snd_run)
  next
    case (Inr x)
    then show ?thesis
      using that
      by (cases x) (simp add: snd_run server_arguments_def get_forwarded_host_def
          get_forwarded_port_def)
  qed
  then show ?thesis
    by (simp add: get_forwarded_host_def get_forwarded_port_def truthy_def)
qed

theorem empty_proxy_header_option_is_absent_witness:
  "proxy_headers_host empty_proxy_options = Some [] \<and>
   proxy_headers_port empty_proxy_options = Some [] \<and>
   \<not> truthy (proxy_headers_host empty_proxy_options) \<and>
   \<not> truthy (proxy_headers_port empty_proxy_options) \<and>
   \<not> proxy_headers empty_proxy_options \<and>
   get_forwarded_host empty_proxy_options = Inr None \<and>
   get_forwarded_port empty_proxy_options = Inr None \<and>
   snd (run example_world empty_proxy_options) = Inr plain_kwargs \<and>
   snd (run example_world empty_proxy_options) \<noteq>
     Inl (ArgumentError ''--proxy-headers-host''
            ''--proxy-headers has to be passed for this parameter.'') \<and>
   proxy_headers_host empty_proxy_options_on = Some [] \<and>
   proxy_headers_port empty_proxy_options_on = Some [] \<and>
   proxy_headers empty_proxy_options_on \<and>
   get_forwarded_host empty_proxy_options_on = Inr (Some ''X-Forwarded-For'') \<and>
   get_forwarded_port empty_proxy_options_on = Inr (Some ''X-Forwarded-Port'')"
proof -
  have f: "proxy_headers_host empty_proxy_options = Some []"
    "proxy_headers_port empty_proxy_options = Some []"
    "\<not> truthy (proxy_headers_host empty_proxy_options)"
    "\<not> truthy (proxy_headers_port empty_proxy_options)"
    "\<not> proxy_headers empty_proxy_options"
    by (simp_all add: empty_proxy_options_def default_args_def truthy_def)
  have g: "proxy_headers_host empty_proxy_options_on = Some []"
    "proxy_headers_port empty_proxy_options_on = Some []"
    "proxy_headers empty_proxy_options_on"
    by (simp_all add: empty_proxy_options_on_def default_args_def)
  note off = empty_proxy_header_option_is_absent [of empty_proxy_options example_world
      "''--proxy-headers-host''" "''--proxy-headers has to be passed for this parameter.''"]
  note on = empty_proxy_header_option_is_absent [of empty_proxy_options_on]
  have 1: "get_forwarded_host empty_proxy_options = Inr None"
    "get_forwarded_port empty_proxy_options = Inr None"
    using off f by simp_all
  have 2: "snd (run example_world empty_proxy_options) \<noteq>
     Inl (ArgumentError ''--proxy-headers-host''
            ''--proxy-headers has to be passed for this parameter.'')"
    using off f by blast
  have 3: "get_forwarded_host empty_proxy_options_on = Inr (Some ''X-Forwarded-For'')"
    "get_forwarded_port empty_proxy_options_on = Inr (Some ''X-Forwarded-Port'')"
    using on g by simp_all
  show ?thesis
    using f g 1 2 3 empty_proxy_options_run by simp
qed

end
